theory Spec2Isabelle
  imports Complex_Main
begin

section \<open>Strings\<close>

text \<open>
  A JavaScript string is a sequence of UTF-16 code units. The model uses \<^typ>\<open>string\<close>:
  every \<^typ>\<open>char\<close> stands for one code unit below 256 (the Latin-1 range), so
  \<open>length\<close> is the \<open>.length\<close> of the source. The string operations the program uses
  (\<open>trim\<close>, \<open>toLowerCase\<close>, \<open>includes\<close>, \<open>split\<close>) do not lead out of this range.
\<close>

text \<open>The white space and line terminators of ECMAScript that lie below 256:
  TAB, LF, VT, FF, CR, SP and NBSP.\<close>

definition isWhiteSpace :: "char \<Rightarrow> bool" where
  "isWhiteSpace c \<longleftrightarrow>
     c \<in> set [CHR 0x09, CHR 0x0A, CHR 0x0B, CHR 0x0C, CHR 0x0D, CHR 0x20, CHR 0xA0]"

text \<open>\<open>String.prototype.trim\<close>: white space is removed at both ends.\<close>

definition trim :: "string \<Rightarrow> string" where
  "trim s = rev (dropWhile isWhiteSpace (rev (dropWhile isWhiteSpace s)))"

text \<open>\<open>String.prototype.toLowerCase\<close> below 256: \<open>A\<close>..\<open>Z\<close> and the capital letters
  \<open>0xC0\<close>..\<open>0xDE\<close> (without the multiplication sign \<open>0xD7\<close>) move up by 32.\<close>

definition toLowerChar :: "char \<Rightarrow> char" where
  "toLowerChar c =
     (let n = (of_char c :: nat)
      in if (65 \<le> n \<and> n \<le> 90) \<or> (192 \<le> n \<and> n \<le> 222 \<and> n \<noteq> 215)
         then char_of (n + 32) else c)"

definition toLowerCase :: "string \<Rightarrow> string" where
  "toLowerCase s = map toLowerChar s"

text \<open>\<open>s.includes(t)\<close>: \<open>t\<close> occurs in \<open>s\<close> as a contiguous substring.\<close>

fun str_includes :: "string \<Rightarrow> string \<Rightarrow> bool" where
  "str_includes [] t = (t = [])"
| "str_includes (c # cs) t = (take (length t) (c # cs) = t \<or> str_includes cs t)"

text \<open>\<open>s.split(d)\<close> for a one-character separator: the pieces between the separators,
  empty pieces included; the empty string gives one empty piece.\<close>

fun split_on :: "char \<Rightarrow> string \<Rightarrow> string list" where
  "split_on d [] = [[]]"
| "split_on d (c # cs) =
     (if c = d then [] # split_on d cs
      else (case split_on d cs of
              [] \<Rightarrow> [[c]]
            | w # ws \<Rightarrow> (c # w) # ws))"

section \<open>Data model (types.ts)\<close>

text \<open>
  \<open>PlanItem.action\<close> has the TypeScript type \<open>"new" | "modify" | "remove"\<close>. The type is
  erased at run time and the values come from the text of the backend, so the field is a
  string here and its validity is a property to be proved. The field \<open>file\<close> is called
  \<open>filePath\<close>. \<open>WorkflowState\<close> is declared with the workflow engine below.
\<close>

record PlanItem =
  filePath :: string
  action :: string
  description :: string

definition validActions :: "string list" where
  "validActions = [''new'', ''modify'', ''remove'']"

section \<open>Generation adapter (GeminiService)\<close>

text \<open>
  What the backend did in one call. \<open>NotInitialized\<close>: \<open>ensureInitialized\<close> returned false.
  \<open>Raised\<close>: an exception reached the \<open>catch\<close> of the operation. \<open>Returned x\<close>: the call
  produced \<open>x\<close>.
\<close>

datatype 'a reply = NotInitialized | Raised | Returned 'a

subsection \<open>Fallbacks\<close>

definition authQuestions :: "string list" where
  "authQuestions =
     [''Which authentication service would you like to use (Auth0, Firebase, or build custom)?'',
      ''Do you need social login options like Google or GitHub?'',
      ''Should this work with your existing user database?'']"

definition apiQuestions :: "string list" where
  "apiQuestions =
     [''Do you prefer a REST API or GraphQL for this feature?'',
      ''What database should this connect to?'',
      ''Do you need authentication/authorization on these endpoints?'']"

definition databaseQuestions :: "string list" where
  "databaseQuestions =
     [''Which database system are you using (PostgreSQL, MongoDB, MySQL)?'',
      ''Do you need migration scripts for existing data?'',
      ''What ORM or database client do you prefer (Prisma, TypeORM, etc.)?'']"

definition genericQuestions :: "string list" where
  "genericQuestions =
     [''What technology stack should this use?'',
      ''Do you need this to work with existing code or systems?'',
      ''Are there any specific requirements or constraints?'']"

definition getFallbackClarificationQuestions :: "string \<Rightarrow> string list" where
  "getFallbackClarificationQuestions userRequest =
     (let request = toLowerCase userRequest
      in if str_includes request ''auth'' then authQuestions
         else if str_includes request ''api'' \<or> str_includes request ''endpoint'' then apiQuestions
         else if str_includes request ''database'' \<or> str_includes request ''db'' then databaseQuestions
         else genericQuestions)"

definition authPlan :: "PlanItem list" where
  "authPlan =
     [\<lparr>filePath = ''src/types/auth.ts'', action = ''new'',
       description = ''Define authentication types and user interfaces''\<rparr>,
      \<lparr>filePath = ''src/lib/auth.ts'', action = ''new'',
       description = ''Create Auth0 integration service with login/logout methods''\<rparr>,
      \<lparr>filePath = ''src/components/LoginForm.tsx'', action = ''new'',
       description = ''Create login form component with Auth0 integration''\<rparr>,
      \<lparr>filePath = ''src/components/ProtectedRoute.tsx'', action = ''new'',
       description = ''Create route protection component for authenticated pages''\<rparr>,
      \<lparr>filePath = ''src/App.tsx'', action = ''modify'',
       description = ''Add Auth0 provider and protected routing configuration''\<rparr>,
      \<lparr>filePath = ''src/utils/localAuth.ts'', action = ''remove'',
       description = ''Remove old local authentication utilities''\<rparr>]"

definition genericPlan :: "PlanItem list" where
  "genericPlan =
     [\<lparr>filePath = ''src/components/NewFeature.tsx'', action = ''new'',
       description = ''Create main component for the requested feature''\<rparr>,
      \<lparr>filePath = ''src/types/feature.ts'', action = ''new'',
       description = ''Define TypeScript types for the new feature''\<rparr>,
      \<lparr>filePath = ''src/App.tsx'', action = ''modify'',
       description = ''Integrate new feature into main application''\<rparr>]"

definition getFallbackPlan :: "string \<Rightarrow> PlanItem list" where
  "getFallbackPlan userRequest =
     (let request = toLowerCase userRequest
      in if str_includes request ''auth'' then authPlan else genericPlan)"

subsection \<open>Clarification questions\<close>

text \<open>
  The reply is the text of the backend's response (\<open>response.text()\<close>). The prompt, and
  with it the optional codebase context, only travels to the backend; the result is
  computed from the reply and the request.
\<close>

definition parseQuestions :: "string \<Rightarrow> string list" where
  "parseQuestions text =
     take 3 (filter (\<lambda>q. length q > 0 \<and> str_includes q ''?'') (map trim (split_on CHR 0x0A text)))"

definition generateClarificationQuestions :: "string reply \<Rightarrow> string \<Rightarrow> string list" where
  "generateClarificationQuestions backend userRequest =
     (case backend of
        NotInitialized \<Rightarrow> getFallbackClarificationQuestions userRequest
      | Raised \<Rightarrow> getFallbackClarificationQuestions userRequest
      | Returned text \<Rightarrow>
          (let questions = parseQuestions text
           in if length questions > 0 then questions
              else getFallbackClarificationQuestions userRequest))"

subsection \<open>Plans\<close>

text \<open>
  The values \<open>JSON.parse\<close> produces. An object keeps its members in source order; when a
  key occurs twice the later member wins, as in \<open>JSON.parse\<close>. Of a number only whether it
  is zero is ever looked at.
\<close>

datatype json =
    JNull
  | JBool bool
  | JNumber real
  | JString string
  | JArray "json list"
  | JObject "(string \<times> json) list"

text \<open>JavaScript truthiness, for \<open>item && ...\<close>.\<close>

fun truthy :: "json \<Rightarrow> bool" where
  "truthy JNull = False"
| "truthy (JBool b) = b"
| "truthy (JNumber n) = (n \<noteq> 0)"
| "truthy (JString s) = (s \<noteq> [])"
| "truthy (JArray xs) = True"
| "truthy (JObject kvs) = True"

text \<open>\<open>item.key\<close> for one of the keys \<open>file\<close>, \<open>action\<close>, \<open>description\<close>; \<open>None\<close> is
  \<open>undefined\<close>. Only an object can have such a member: strings, numbers, booleans and
  arrays have no property of these names.\<close>

fun getProp :: "json \<Rightarrow> string \<Rightarrow> json option" where
  "getProp (JObject kvs) k = map_of (rev kvs) k"
| "getProp _ k = None"

text \<open>The \<open>filter\<close> predicate of \<open>generatePlan\<close>, test by test.\<close>

definition isStringProp :: "json \<Rightarrow> string \<Rightarrow> bool" where
  "isStringProp item k = (case getProp item k of Some (JString s) \<Rightarrow> True | _ \<Rightarrow> False)"

definition stringProp :: "json \<Rightarrow> string \<Rightarrow> string" where
  "stringProp item k = (case getProp item k of Some (JString s) \<Rightarrow> s | _ \<Rightarrow> [])"

definition keepItem :: "json \<Rightarrow> bool" where
  "keepItem item \<longleftrightarrow>
     truthy item \<and>
     isStringProp item ''file'' \<and>
     isStringProp item ''action'' \<and>
     isStringProp item ''description'' \<and>
     stringProp item ''action'' \<in> set validActions"

text \<open>The \<open>map\<close> of \<open>generatePlan\<close>; it only runs on items that passed the filter, where
  the three members are strings.\<close>

definition toPlanItem :: "json \<Rightarrow> PlanItem" where
  "toPlanItem item =
     \<lparr>filePath = trim (stringProp item ''file''),
      action = stringProp item ''action'',
      description = trim (stringProp item ''description'')\<rparr>"

definition validatedPlan :: "json list \<Rightarrow> PlanItem list" where
  "validatedPlan planData = map toPlanItem (filter keepItem planData)"

text \<open>
  The reply of \<open>generatePlan\<close> is the value of \<open>planData\<close>: the response text after the
  code fences are stripped, the bracketed part is matched and \<open>JSON.parse\<close> has run. A
  missing match and a syntax error are exceptions inside the same \<open>try\<close>, so they are
  \<open>Raised\<close>.
\<close>

definition generatePlan :: "json reply \<Rightarrow> string \<Rightarrow> string list \<Rightarrow> PlanItem list" where
  "generatePlan backend userRequest answers =
     (case backend of
        NotInitialized \<Rightarrow> getFallbackPlan userRequest
      | Raised \<Rightarrow> getFallbackPlan userRequest
      | Returned planData \<Rightarrow>
          (case planData of
             JArray items \<Rightarrow>
               (if length (validatedPlan items) = 0 then getFallbackPlan userRequest
                else validatedPlan items)
           | _ \<Rightarrow> getFallbackPlan userRequest))"

section \<open>Context aggregator (CodebaseAnalyzer)\<close>

record FileInfo =
  path :: string
  content :: string
  language :: string
  fileSize :: nat

record CodebaseContext =
  projectType :: string
  frameworks :: "string list"
  languages :: "string list"
  keyFiles :: "FileInfo list"
  projectStructure :: string
  dependencies :: "string list"

definition maxFileSize :: nat where
  "maxFileSize = 50000"

definition maxTotalFiles :: nat where
  "maxTotalFiles = 20"

text \<open>
  The editor and the file system, as the analyzer sees them. A file is named by its
  \<open>fsPath\<close>. An operation that can reject gives \<open>None\<close> when it does.
  \<^item> \<open>workspaceFolders\<close>: the \<open>fsPath\<close> of every workspace folder, \<open>None\<close> for \<open>undefined\<close>;
  \<^item> \<open>findFiles pattern max\<close>: \<open>vscode.workspace.findFiles(pattern, "**/node_modules/**", max)\<close>;
  \<^item> \<open>stat file\<close>: the \<open>size\<close> of \<open>vscode.workspace.fs.stat(file)\<close>;
  \<^item> \<open>readFile file\<close>: the bytes of the file, decoded as UTF-8;
  \<^item> \<open>asRelativePath\<close>, \<open>extname\<close>: \<open>vscode.workspace.asRelativePath\<close> and Node's
    \<open>path.extname\<close>;
  \<^item> \<open>manifestDependencies text\<close>: the keys of
    \<open>{...JSON.parse(text).dependencies, ...JSON.parse(text).devDependencies}\<close>;
  \<^item> \<open>readDirectory\<close>: the listing of the root folder, see \<open>fsnode\<close>.
\<close>

datatype FileType = RegularFile | Directory | OtherType

text \<open>One entry of a directory listing: its name, its type and, for a directory, what
  \<open>readDirectory\<close> gives for it (\<open>None\<close> when it rejects).\<close>

datatype fsnode = FsNode (nodeName: string) (nodeType: FileType) (nodeEntries: "fsnode list option")

record Workspace =
  workspaceFolders :: "string list option"
  findFiles :: "string \<Rightarrow> nat \<Rightarrow> string list option"
  stat :: "string \<Rightarrow> nat option"
  readFile :: "string \<Rightarrow> string option"
  asRelativePath :: "string \<Rightarrow> string"
  extname :: "string \<Rightarrow> string"
  manifestDependencies :: "string \<Rightarrow> string list option"
  readDirectory :: "string \<Rightarrow> fsnode list option"

datatype analyzerError = NoWorkspaceFolder

definition keyFilePatterns :: "string list" where
  "keyFilePatterns =
     [''**/package.json'',
      ''**/tsconfig.json'',
      ''**/next.config.*'',
      ''**/vite.config.*'',
      ''**/webpack.config.*'',
      ''**/tailwind.config.*'',
      ''**/src/**/*.{ts,tsx,js,jsx}'',
      ''**/app/**/*.{ts,tsx,js,jsx}'',
      ''**/pages/**/*.{ts,tsx,js,jsx}'',
      ''**/components/**/*.{ts,tsx,js,jsx}'',
      ''**/lib/**/*.{ts,tsx,js,jsx}'',
      ''**/utils/**/*.{ts,tsx,js,jsx}'',
      ''**/*.md'',
      ''**/Dockerfile'',
      ''**/.env*'']"

definition languageMap :: "(string \<times> string) list" where
  "languageMap =
     [(''.ts'', ''TypeScript''),
      (''.tsx'', ''TypeScript React''),
      (''.js'', ''JavaScript''),
      (''.jsx'', ''JavaScript React''),
      (''.json'', ''JSON''),
      (''.md'', ''Markdown''),
      (''.css'', ''CSS''),
      (''.scss'', ''SCSS''),
      (''.html'', ''HTML''),
      (''.py'', ''Python''),
      (''.java'', ''Java''),
      (''.go'', ''Go''),
      (''.rs'', ''Rust'')]"

definition getLanguageFromPath :: "Workspace \<Rightarrow> string \<Rightarrow> string" where
  "getLanguageFromPath w fsPath =
     (case map_of languageMap (toLowerCase (extname w fsPath)) of
        Some l \<Rightarrow> l
      | None \<Rightarrow> ''Unknown'')"

text \<open>
  The inner loop of \<open>findKeyFiles\<close> over the files one pattern found; \<open>files\<close> is the
  array being filled. \<open>break\<close> ends the loop, \<open>continue\<close> and the \<open>catch\<close> around
  \<open>stat\<close> and \<open>readFile\<close> go on with the next file.
\<close>

fun scanFound :: "Workspace \<Rightarrow> string list \<Rightarrow> FileInfo list \<Rightarrow> FileInfo list" where
  "scanFound w [] files = files"
| "scanFound w (f # foundFiles) files =
     (if length files \<ge> maxTotalFiles then files
      else (case stat w f of
              None \<Rightarrow> scanFound w foundFiles files
            | Some sz \<Rightarrow>
                (if sz > maxFileSize then scanFound w foundFiles files
                 else (case readFile w f of
                         None \<Rightarrow> scanFound w foundFiles files
                       | Some textContent \<Rightarrow>
                           scanFound w foundFiles
                             (files @ [\<lparr>path = asRelativePath w f,
                                        content = textContent,
                                        language = getLanguageFromPath w f,
                                        fileSize = sz\<rparr>])))))"

text \<open>The outer loop over the patterns; a rejected \<open>findFiles\<close> is caught and the next
  pattern is tried.\<close>

fun scanPatterns :: "Workspace \<Rightarrow> string list \<Rightarrow> FileInfo list \<Rightarrow> FileInfo list" where
  "scanPatterns w [] files = files"
| "scanPatterns w (pattern # patterns) files =
     (case findFiles w pattern maxTotalFiles of
        None \<Rightarrow> scanPatterns w patterns files
      | Some foundFiles \<Rightarrow> scanPatterns w patterns (scanFound w foundFiles files))"

definition findKeyFiles :: "Workspace \<Rightarrow> FileInfo list" where
  "findKeyFiles w = take maxTotalFiles (scanPatterns w keyFilePatterns [])"

text \<open>What it means for an entry of \<open>keyFiles\<close> to be a file of the workspace kept
  whole: its size is the size \<open>stat\<close> gave for some file and is within the limit, its
  content is all that \<open>readFile\<close> gave for that file, and its path is that file's.\<close>

definition keptWhole :: "Workspace \<Rightarrow> FileInfo \<Rightarrow> bool" where
  "keptWhole w f \<longleftrightarrow>
     fileSize f \<le> maxFileSize \<and>
     (\<exists>u. stat w u = Some (fileSize f) \<and> readFile w u = Some (content f) \<and>
          path f = asRelativePath w u)"

definition endsWith :: "string \<Rightarrow> string \<Rightarrow> bool" where
  "endsWith s t \<longleftrightarrow> length t \<le> length s \<and> drop (length s - length t) s = t"

definition startsWith :: "string \<Rightarrow> string \<Rightarrow> bool" where
  "startsWith s t \<longleftrightarrow> take (length t) s = t"

definition extractDependencies :: "Workspace \<Rightarrow> FileInfo list \<Rightarrow> string list" where
  "extractDependencies w files =
     (case find (\<lambda>f. endsWith (path f) ''package.json'') files of
        None \<Rightarrow> []
      | Some packageJsonFile \<Rightarrow>
          (case manifestDependencies w (content packageJsonFile) of
             None \<Rightarrow> []
           | Some deps \<Rightarrow> deps))"

text \<open>\<open>[...new Set(xs)]\<close>: the first occurrence of every element, in order.\<close>

definition uniq :: "string list \<Rightarrow> string list" where
  "uniq xs = rev (remdups (rev xs))"

definition pushIf :: "bool \<Rightarrow> string \<Rightarrow> string list" where
  "pushIf b x = (if b then [x] else [])"

definition detectFrameworks :: "FileInfo list \<Rightarrow> string list \<Rightarrow> string list" where
  "detectFrameworks files deps =
     uniq
       (pushIf (''next'' \<in> set deps) ''Next.js'' @
        pushIf (''react'' \<in> set deps) ''React'' @
        pushIf (''vue'' \<in> set deps) ''Vue.js'' @
        pushIf (''svelte'' \<in> set deps) ''Svelte'' @
        pushIf (''express'' \<in> set deps) ''Express'' @
        pushIf (''fastify'' \<in> set deps) ''Fastify'' @
        pushIf (''tailwindcss'' \<in> set deps) ''Tailwind CSS'' @
        pushIf (''typescript'' \<in> set deps) ''TypeScript'' @
        pushIf (list_ex (\<lambda>f. str_includes (path f) ''next.config'') files) ''Next.js'' @
        pushIf (list_ex (\<lambda>f. str_includes (path f) ''vite.config'') files) ''Vite'' @
        pushIf (list_ex (\<lambda>f. str_includes (path f) ''tailwind.config'') files) ''Tailwind CSS'')"

definition detectLanguages :: "FileInfo list \<Rightarrow> string list" where
  "detectLanguages files = uniq (map language files)"

definition determineProjectType :: "string list \<Rightarrow> FileInfo list \<Rightarrow> string" where
  "determineProjectType fws files =
     (if ''Next.js'' \<in> set fws then ''Next.js Application''
      else if ''React'' \<in> set fws then ''React Application''
      else if ''Vue.js'' \<in> set fws then ''Vue.js Application''
      else if ''Svelte'' \<in> set fws then ''Svelte Application''
      else if ''Express'' \<in> set fws then ''Node.js Backend''
      else if list_ex (\<lambda>f. str_includes (path f) ''package.json'') files then ''Node.js Project''
      else ''Web Project'')"

text \<open>
  \<open>buildDirectoryTree\<close>: the listing of a directory, two blanks of indentation per level.
  A listing that cannot be read gives the empty text. The source recurses on the joined
  path; the model recurses on the listing stored in the entry.
\<close>

definition skipEntry :: "string \<Rightarrow> bool" where
  "skipEntry name \<longleftrightarrow>
     (startsWith name ''.'' \<and> name \<notin> set [''src'', ''app'', ''pages'', ''components''])
     \<or> name = ''node_modules''"

function buildDirectoryTree :: "fsnode list option \<Rightarrow> nat \<Rightarrow> nat \<Rightarrow> string" where
  "buildDirectoryTree listing currentDepth maxDepth =
     (if currentDepth \<ge> maxDepth then []
      else (case listing of
              None \<Rightarrow> []
            | Some entries \<Rightarrow>
                concat (map (\<lambda>e.
                  if skipEntry (nodeName e) then []
                  else concat (replicate currentDepth ''  '') @ nodeName e @ [CHR 0x0A] @
                       (if nodeType e = Directory \<and> currentDepth < maxDepth - 1
                        then buildDirectoryTree (nodeEntries e) (currentDepth + 1) maxDepth
                        else [])) entries)))"
  by pat_completeness auto
termination
  by (relation "measure (\<lambda>(listing, currentDepth, maxDepth). maxDepth - currentDepth)") auto

definition generateStructure :: "Workspace \<Rightarrow> string \<Rightarrow> string" where
  "generateStructure w rootPath = buildDirectoryTree (readDirectory w rootPath) 0 3"

definition analyzeWorkspace :: "Workspace \<Rightarrow> analyzerError + CodebaseContext" where
  "analyzeWorkspace w =
     (case workspaceFolders w of
        None \<Rightarrow> Inl NoWorkspaceFolder
      | Some [] \<Rightarrow> Inl NoWorkspaceFolder
      | Some (rootPath # others) \<Rightarrow>
          (let files = findKeyFiles w;
               deps = extractDependencies w files;
               fws = detectFrameworks files deps;
               langs = detectLanguages files;
               ptype = determineProjectType fws files;
               tree = generateStructure w rootPath
           in Inr \<lparr>projectType = ptype,
                   frameworks = fws,
                   languages = langs,
                   keyFiles = files,
                   projectStructure = tree,
                   dependencies = deps\<rparr>))"

section \<open>Workflow engine (PlannerProvider)\<close>

datatype Phase = Idle | Clarification | Planning | Ready

record WorkflowState =
  phase :: Phase
  userRequest :: string
  clarificationQuestions :: "string list"
  clarificationAnswers :: "string list"
  plan :: "PlanItem list"

definition initialWorkflowState :: WorkflowState where
  "initialWorkflowState =
     \<lparr>phase = Idle, userRequest = [], clarificationQuestions = [],
      clarificationAnswers = [], plan = []\<rparr>"

definition WORKFLOW_STATE_KEY :: string where
  "WORKFLOW_STATE_KEY = ''traycer.workflowState''"

text \<open>The notifications of the engine (\<open>showInformationMessage\<close>, \<open>showWarningMessage\<close>,
  \<open>showErrorMessage\<close>), with the numbers and names the message text carries.\<close>

datatype message =
    AnalyzingRequest
  | GeneratedQuestions nat
  | ErrorGeneratingQuestions
  | AnswerRecorded nat
  | AllQuestionsAnswered
  | AnswerAllQuestionsFirst
  | GeneratingPlan
  | PlanGenerated nat
  | ErrorGeneratingPlan
  | NoPlanAvailable
  | ExecutingPlan
  | Progress nat nat string string
  | FailedToApply string
  | ExecutionCompleted nat nat
  | WorkflowRestarted

text \<open>The messages the sidebar posts to its webview.\<close>

datatype webviewMessage =
    StatusAnalyzing
  | StatusReady string "string list"
  | StatusNoCodebase
  | LoadingRequest
  | ShowClarifications "string list" string
  | LoadingPlan
  | ShowPlan "PlanItem list"
  | ShowError
  | ResetWorkflow

text \<open>
  Everything a provider does to the outside, in the order in which it happens:
  \<^item> \<open>Update key state\<close>: \<open>workspaceState.update(key, state)\<close>;
  \<^item> \<open>Refresh\<close>: the tree view is told to redraw;
  \<^item> \<open>Notify m\<close>: a notification is shown;
  \<^item> \<open>AskQuestions request context\<close>: a call of
    \<open>geminiService.generateClarificationQuestions\<close> with these arguments, \<open>None\<close> standing
    for an argument that is left out or \<open>undefined\<close>;
  \<^item> \<open>AskPlan request answers context\<close>: a call of \<open>geminiService.generatePlan\<close>;
  \<^item> \<open>ApplyPlanItem item\<close>: a call of \<open>fileManipulator.applyPlanItem\<close>;
  \<^item> \<open>AnalyzeWorkspace\<close>: a call of \<open>codebaseAnalyzer.analyzeWorkspace\<close>;
  \<^item> \<open>PostMessage m\<close>: a message to the webview.
\<close>

datatype event =
    Update string WorkflowState
  | Refresh
  | Notify message
  | AskQuestions string "CodebaseContext option"
  | AskPlan string "string list" "CodebaseContext option"
  | ApplyPlanItem PlanItem
  | AnalyzeWorkspace
  | PostMessage webviewMessage

text \<open>
  The two collaborators handed to the constructor. A call of the generation adapter
  that rejects gives \<open>None\<close>. \<open>applyPlanItem i item\<close> is true when the call for \<open>item\<close>
  resolves and false when it rejects; \<open>i\<close> is the position of the item in the plan, so
  that the same item may succeed at one position and fail at another.
\<close>

record Collaborators =
  askQuestions :: "string \<Rightarrow> CodebaseContext option \<Rightarrow> string list option"
  askPlan :: "string \<Rightarrow> string list \<Rightarrow> CodebaseContext option \<Rightarrow> PlanItem list option"
  applyPlanItem :: "nat \<Rightarrow> PlanItem \<Rightarrow> bool"

text \<open>
  The provider: its \<open>workflowState\<close> field, the \<open>workspaceState\<close> memento of the
  extension context (a store of values under keys; \<open>update\<close> stores the value as it is at
  that moment), and the record of what it did.
\<close>

record PlannerProvider =
  workflowState :: WorkflowState
  workspaceState :: "string \<rightharpoonup> WorkflowState"
  events :: "event list"

definition emit :: "event \<Rightarrow> PlannerProvider \<Rightarrow> PlannerProvider" where
  "emit e p = p\<lparr>events := events p @ [e]\<rparr>"

definition saveWorkflowState :: "PlannerProvider \<Rightarrow> PlannerProvider" where
  "saveWorkflowState p =
     emit (Update WORKFLOW_STATE_KEY (workflowState p))
       (p\<lparr>workspaceState := (workspaceState p)(WORKFLOW_STATE_KEY \<mapsto> workflowState p)\<rparr>)"

definition refresh :: "PlannerProvider \<Rightarrow> PlannerProvider" where
  "refresh p = emit Refresh p"

definition loadWorkflowState :: "PlannerProvider \<Rightarrow> PlannerProvider" where
  "loadWorkflowState p =
     (case workspaceState p WORKFLOW_STATE_KEY of
        None \<Rightarrow> p
      | Some savedState \<Rightarrow> refresh (p\<lparr>workflowState := savedState\<rparr>))"

text \<open>The constructor, given the memento of the extension context.\<close>

definition newPlannerProvider :: "(string \<rightharpoonup> WorkflowState) \<Rightarrow> PlannerProvider" where
  "newPlannerProvider memento =
     loadWorkflowState
       \<lparr>workflowState = initialWorkflowState, workspaceState = memento, events = []\<rparr>"

definition resetWorkflowState :: "PlannerProvider \<Rightarrow> PlannerProvider" where
  "resetWorkflowState p =
     refresh (saveWorkflowState (p\<lparr>workflowState := initialWorkflowState\<rparr>))"

text \<open>
  \<open>vscode.window.showInputBox\<close> with a \<open>validateInput\<close> callback. The box cannot be
  accepted while the callback returns a message, so the call resolves to a text that
  passes the check or to \<open>undefined\<close>. \<open>typed\<close> is what the user does: \<open>None\<close> is
  dismissing the box, \<open>Some v\<close> is entering \<open>v\<close>; a text that does not pass is never
  handed to the program.
\<close>

definition showInputBox :: "(string \<Rightarrow> bool) \<Rightarrow> string option \<Rightarrow> string option" where
  "showInputBox accepts typed =
     (case typed of
        None \<Rightarrow> None
      | Some v \<Rightarrow> if accepts v then Some v else None)"

text \<open>The two \<open>validateInput\<close> callbacks; true where the source returns \<open>null\<close>.\<close>

definition requestAccepted :: "string \<Rightarrow> bool" where
  "requestAccepted v \<longleftrightarrow> \<not> (v = [] \<or> length (trim v) < 10)"

definition answerAccepted :: "string \<Rightarrow> bool" where
  "answerAccepted v \<longleftrightarrow> \<not> (v = [] \<or> length (trim v) < 2)"

subsection \<open>generatePlan: from idle to clarification\<close>

text \<open>The \<open>catch\<close> block.\<close>

definition startFailed :: "PlannerProvider \<Rightarrow> PlannerProvider" where
  "startFailed p =
     (let p1 = emit (Notify ErrorGeneratingQuestions) p;
          p2 = p1\<lparr>workflowState := (workflowState p1)\<lparr>phase := Idle\<rparr>\<rparr>
      in refresh (saveWorkflowState p2))"

definition planner_generatePlan ::
    "Collaborators \<Rightarrow> string option \<Rightarrow> PlannerProvider \<Rightarrow> PlannerProvider" where
  "planner_generatePlan c typed p =
     (if phase (workflowState p) \<noteq> Idle then p
      else (case showInputBox requestAccepted typed of
              None \<Rightarrow> p
            | Some request \<Rightarrow>
                if request = [] then p
                else
                  (let p1 = p\<lparr>workflowState := (workflowState p)
                                \<lparr>userRequest := trim request,
                                 phase := Clarification,
                                 clarificationQuestions := [],
                                 clarificationAnswers := []\<rparr>\<rparr>;
                       p2 = refresh (saveWorkflowState p1);
                       p3 = emit (Notify AnalyzingRequest) p2;
                       p4 = emit (AskQuestions request None) p3
                   in (case askQuestions c request None of
                         None \<Rightarrow> startFailed p4
                       | Some questions \<Rightarrow>
                           if length questions = 0 then startFailed p4
                           else
                             (let p5 = p4\<lparr>workflowState := (workflowState p4)
                                           \<lparr>clarificationQuestions := questions\<rparr>\<rparr>;
                                  p6 = refresh (saveWorkflowState p5)
                              in emit (Notify (GeneratedQuestions (length questions))) p6)))))"

subsection \<open>answerNextQuestion\<close>

definition planner_answerNextQuestion :: "string option \<Rightarrow> PlannerProvider \<Rightarrow> PlannerProvider" where
  "planner_answerNextQuestion typed p =
     (if phase (workflowState p) \<noteq> Clarification then p
      else
        (let nextQuestionIndex = length (clarificationAnswers (workflowState p))
         in if nextQuestionIndex \<ge> length (clarificationQuestions (workflowState p)) then p
            else (case showInputBox answerAccepted typed of
                    None \<Rightarrow> p
                  | Some answer \<Rightarrow>
                      if answer = [] then p
                      else
                        (let p1 = p\<lparr>workflowState := (workflowState p)
                                      \<lparr>clarificationAnswers :=
                                         clarificationAnswers (workflowState p) @ [trim answer]\<rparr>\<rparr>;
                             p2 = refresh (saveWorkflowState p1);
                             remaining = length (clarificationQuestions (workflowState p2))
                                         - length (clarificationAnswers (workflowState p2))
                         in if remaining > 0 then emit (Notify (AnswerRecorded remaining)) p2
                            else emit (Notify AllQuestionsAnswered) p2))))"

subsection \<open>submitClarification: from clarification through planning to ready\<close>

text \<open>The \<open>catch\<close> block.\<close>

definition submitFailed :: "PlannerProvider \<Rightarrow> PlannerProvider" where
  "submitFailed p =
     (let p1 = emit (Notify ErrorGeneratingPlan) p;
          p2 = p1\<lparr>workflowState := (workflowState p1)\<lparr>phase := Clarification\<rparr>\<rparr>
      in refresh (saveWorkflowState p2))"

definition planner_submitClarification :: "Collaborators \<Rightarrow> PlannerProvider \<Rightarrow> PlannerProvider" where
  "planner_submitClarification c p =
     (if phase (workflowState p) \<noteq> Clarification then p
      else if length (clarificationAnswers (workflowState p))
              \<noteq> length (clarificationQuestions (workflowState p))
      then emit (Notify AnswerAllQuestionsFirst) p
      else
        (let p1 = p\<lparr>workflowState := (workflowState p)\<lparr>phase := Planning\<rparr>\<rparr>;
             p2 = refresh (saveWorkflowState p1);
             p3 = emit (Notify GeneratingPlan) p2;
             request = userRequest (workflowState p3);
             answers = clarificationAnswers (workflowState p3);
             p4 = emit (AskPlan request answers None) p3
         in (case askPlan c request answers None of
               None \<Rightarrow> submitFailed p4
             | Some items \<Rightarrow>
                 if length items = 0 then submitFailed p4
                 else
                   (let p5 = p4\<lparr>workflowState := (workflowState p4)
                                 \<lparr>plan := items, phase := Ready\<rparr>\<rparr>;
                        p6 = refresh (saveWorkflowState p5)
                    in emit (Notify (PlanGenerated (length items))) p6))))"

subsection \<open>executeToIDE\<close>

text \<open>
  The \<open>for\<close> loop over \<open>plan.entries()\<close>: \<open>index\<close> is the position of the next item,
  \<open>successCount\<close> the counter of the source. The result is the final counter and the
  provider.
\<close>

fun applyItems ::
    "Collaborators \<Rightarrow> PlanItem list \<Rightarrow> nat \<Rightarrow> nat \<Rightarrow> PlannerProvider \<Rightarrow> nat \<times> PlannerProvider" where
  "applyItems c [] index successCount p = (successCount, p)"
| "applyItems c (planItem # rest) index successCount p =
     (let p1 = emit (ApplyPlanItem planItem) p
      in if applyPlanItem c index planItem
         then applyItems c rest (index + 1) (successCount + 1)
                (if length (plan (workflowState p1)) > 3
                 then emit (Notify (Progress (index + 1) (length (plan (workflowState p1)))
                                      (action planItem) (filePath planItem))) p1
                 else p1)
         else applyItems c rest (index + 1) successCount
                (emit (Notify (FailedToApply (filePath planItem))) p1))"

definition planner_executeToIDE ::
    "Collaborators \<Rightarrow> string option \<Rightarrow> PlannerProvider \<Rightarrow> PlannerProvider" where
  "planner_executeToIDE c confirmation p =
     (if phase (workflowState p) \<noteq> Ready \<or> length (plan (workflowState p)) = 0
      then emit (Notify NoPlanAvailable) p
      else if confirmation \<noteq> Some ''Yes, Execute Plan'' then p
      else
        (let p1 = emit (Notify ExecutingPlan) p;
             (successCount, p2) = applyItems c (plan (workflowState p1)) 0 0 p1;
             p3 = emit (Notify (ExecutionCompleted successCount
                                  (length (plan (workflowState p2))))) p2
         in resetWorkflowState p3))"

subsection \<open>restartWorkflow\<close>

definition planner_restartWorkflow :: "string option \<Rightarrow> PlannerProvider \<Rightarrow> PlannerProvider" where
  "planner_restartWorkflow confirmation p =
     (if confirmation = Some ''Yes, Restart''
      then emit (Notify WorkflowRestarted) (resetWorkflowState p)
      else p)"

subsection \<open>What a record of events contains\<close>

text \<open>The states written to storage, the calls of the generation adapter, the items
  handed to the file manipulator and the number of workspace analyses, each in order.\<close>

fun written :: "event list \<Rightarrow> WorkflowState list" where
  "written [] = []"
| "written (Update k s # es) = s # written es"
| "written (e # es) = written es"

fun adapterCalls :: "event list \<Rightarrow> event list" where
  "adapterCalls [] = []"
| "adapterCalls (AskQuestions r ctx # es) = AskQuestions r ctx # adapterCalls es"
| "adapterCalls (AskPlan r a ctx # es) = AskPlan r a ctx # adapterCalls es"
| "adapterCalls (e # es) = adapterCalls es"

fun applied :: "event list \<Rightarrow> PlanItem list" where
  "applied [] = []"
| "applied (ApplyPlanItem i # es) = i # applied es"
| "applied (e # es) = applied es"

fun analyses :: "event list \<Rightarrow> nat" where
  "analyses [] = 0"
| "analyses (AnalyzeWorkspace # es) = Suc (analyses es)"
| "analyses (e # es) = analyses es"

section \<open>The sidebar (SidebarProvider)\<close>

text \<open>
  The fields of the provider, the record of what it did, and \<open>pendingAnalyses\<close>: the
  number of calls of \<open>initializeCodebaseContext\<close> that wait at their \<open>await\<close> for the
  analysis to settle.
\<close>

record SidebarProvider =
  codebaseContext :: "CodebaseContext option"
  currentRequest :: string
  sidebarQuestions :: "string list"
  sidebarAnswers :: "string list"
  currentPlan :: "PlanItem list"
  sidebarEvents :: "event list"
  pendingAnalyses :: nat

definition post :: "event \<Rightarrow> SidebarProvider \<Rightarrow> SidebarProvider" where
  "post e s = s\<lparr>sidebarEvents := sidebarEvents s @ [e]\<rparr>"

definition newSidebarProvider :: SidebarProvider where
  "newSidebarProvider =
     \<lparr>codebaseContext = None, currentRequest = [], sidebarQuestions = [],
      sidebarAnswers = [], currentPlan = [], sidebarEvents = [], pendingAnalyses = 0\<rparr>"

text \<open>
  \<open>initializeCodebaseContext\<close> is an \<open>async\<close> method. A call runs it up to its \<open>await\<close>:
  the status message is posted and \<open>analyzeWorkspace\<close> is called; the field
  \<open>codebaseContext\<close> is not touched. The rest runs when the analysis has settled, which
  is \<open>analysisSettled\<close>: \<open>w\<close> is the workspace as the analysis saw it. On success the
  context is stored and the ready message posted, on failure the \<open>catch\<close> posts its
  message. Nothing settles that was not started.
\<close>

definition initializeCodebaseContext :: "SidebarProvider \<Rightarrow> SidebarProvider" where
  "initializeCodebaseContext s =
     (let s1 = post (PostMessage StatusAnalyzing) s;
          s2 = post AnalyzeWorkspace s1
      in s2\<lparr>pendingAnalyses := Suc (pendingAnalyses s2)\<rparr>)"

definition analysisSettled :: "Workspace \<Rightarrow> SidebarProvider \<Rightarrow> SidebarProvider" where
  "analysisSettled w s =
     (if pendingAnalyses s = 0 then s
      else
        (let s1 = s\<lparr>pendingAnalyses := pendingAnalyses s - 1\<rparr>
         in (case analyzeWorkspace w of
               Inl err \<Rightarrow> post (PostMessage StatusNoCodebase) s1
             | Inr ctx \<Rightarrow>
                 post (PostMessage (StatusReady (projectType ctx) (frameworks ctx)))
                   (s1\<lparr>codebaseContext := Some ctx\<rparr>))))"

text \<open>\<open>resolveWebviewView\<close> sets the view up and calls \<open>initializeCodebaseContext\<close>
  without waiting for it: when it returns, the analysis has been started and has not
  settled.\<close>

definition resolveWebviewView :: "SidebarProvider \<Rightarrow> SidebarProvider" where
  "resolveWebviewView s = initializeCodebaseContext s"

definition handleGeneratePlan :: "Collaborators \<Rightarrow> string \<Rightarrow> SidebarProvider \<Rightarrow> SidebarProvider" where
  "handleGeneratePlan c request s =
     (let s1 = s\<lparr>currentRequest := request\<rparr>;
          s2 = post (PostMessage LoadingRequest) s1;
          s3 = post (AskQuestions request (codebaseContext s2)) s2
      in (case askQuestions c request (codebaseContext s2) of
            None \<Rightarrow> post (PostMessage ShowError) s3
          | Some clarifications \<Rightarrow>
              post (PostMessage (ShowClarifications clarifications request))
                (s3\<lparr>sidebarQuestions := clarifications\<rparr>)))"

definition handleSubmitAnswer :: "Collaborators \<Rightarrow> string \<Rightarrow> SidebarProvider \<Rightarrow> SidebarProvider" where
  "handleSubmitAnswer c answer s =
     (let s1 = s\<lparr>sidebarAnswers := sidebarAnswers s @ [answer]\<rparr>;
          s2 = post (PostMessage LoadingPlan) s1;
          s3 = post (AskPlan (currentRequest s2) (sidebarAnswers s2) (codebaseContext s2)) s2
      in (case askPlan c (currentRequest s2) (sidebarAnswers s2) (codebaseContext s2) of
            None \<Rightarrow> post (PostMessage ShowError) s3
          | Some items \<Rightarrow>
              post (PostMessage (ShowPlan items)) (s3\<lparr>currentPlan := items\<rparr>)))"

definition handleRestartWorkflow :: "SidebarProvider \<Rightarrow> SidebarProvider" where
  "handleRestartWorkflow s =
     post (PostMessage ResetWorkflow)
       (s\<lparr>currentRequest := [], sidebarQuestions := [], sidebarAnswers := [], currentPlan := []\<rparr>)"

section \<open>Reachable states of the engine\<close>

text \<open>The invariant of the data model: there are no more answers than questions.\<close>

definition answersWithinQuestions :: "WorkflowState \<Rightarrow> bool" where
  "answersWithinQuestions s \<longleftrightarrow>
     length (clarificationAnswers s) \<le> length (clarificationQuestions s)"

text \<open>
  The providers a session can be in: a provider constructed on an empty memento, a
  provider constructed later on what an earlier one left in storage, and whatever the
  five operations make of a provider, with any collaborators and any user input.
\<close>

inductive reachable :: "PlannerProvider \<Rightarrow> bool" where
  reachable_new: "reachable (newPlannerProvider Map.empty)"
| reachable_reload: "reachable p \<Longrightarrow> reachable (newPlannerProvider (workspaceState p))"
| reachable_start: "reachable p \<Longrightarrow> reachable (planner_generatePlan c typed p)"
| reachable_answer: "reachable p \<Longrightarrow> reachable (planner_answerNextQuestion typed p)"
| reachable_submit: "reachable p \<Longrightarrow> reachable (planner_submitClarification c p)"
| reachable_execute: "reachable p \<Longrightarrow> reachable (planner_executeToIDE c confirmation p)"
| reachable_restart: "reachable p \<Longrightarrow> reachable (planner_restartWorkflow confirmation p)"

text \<open>The invariant holds of the state in memory and of the state in storage.\<close>

definition consistent :: "PlannerProvider \<Rightarrow> bool" where
  "consistent p \<longleftrightarrow>
     answersWithinQuestions (workflowState p) \<and>
     (\<forall>s. workspaceState p WORKFLOW_STATE_KEY = Some s \<longrightarrow> answersWithinQuestions s)"

section \<open>Scenarios\<close>

text \<open>What a sequence of attempts at \<open>answerNextQuestion\<close> would record if there were
  room for all of them: the trimmed text of every attempt that the input box hands to
  the program.\<close>

definition recordedAnswer :: "string option \<Rightarrow> string option" where
  "recordedAnswer typed =
     (case showInputBox answerAccepted typed of
        None \<Rightarrow> None
      | Some answer \<Rightarrow> if answer = [] then None else Some (trim answer))"

definition recordedAnswers :: "string option list \<Rightarrow> string list" where
  "recordedAnswers typeds = List.map_filter recordedAnswer typeds"

text \<open>The positions of a plan at which \<open>applyPlanItem\<close> rejects.\<close>

definition failingPositions :: "Collaborators \<Rightarrow> PlanItem list \<Rightarrow> nat list" where
  "failingPositions c items =
     filter (\<lambda>i. \<not> applyPlanItem c i (items ! i)) [0..<length items]"

text \<open>The execution reports in a record of events: applied and total.\<close>

fun completions :: "event list \<Rightarrow> (nat \<times> nat) list" where
  "completions [] = []"
| "completions (Notify (ExecutionCompleted n t) # es) = (n, t) # completions es"
| "completions (e # es) = completions es"


text \<open>The adapter of this program with a backend that is not initialized, with a file
  manipulator that fails at position 1 and nowhere else.\<close>

definition offline :: Collaborators where
  "offline =
     \<lparr>askQuestions = (\<lambda>request ctx. Some (generateClarificationQuestions NotInitialized request)),
      askPlan = (\<lambda>request answers ctx. Some (generatePlan NotInitialized request answers)),
      applyPlanItem = (\<lambda>i item. i \<noteq> 1)\<rparr>"

text \<open>One session of the engine: a fresh provider on an empty memento, a request, three
  answers and the submission.\<close>

definition fresh :: PlannerProvider where
  "fresh = newPlannerProvider Map.empty"

definition started :: PlannerProvider where
  "started = planner_generatePlan offline (Some ''Add user authentication with Auth0'') fresh"

definition answered :: PlannerProvider where
  "answered =
     fold planner_answerNextQuestion [Some ''Auth0'', Some ''Yes, Google'', Some ''No''] started"

definition submitted :: PlannerProvider where
  "submitted = planner_submitClarification offline answered"

text \<open>Raw plan elements as a backend may send them: a complete one, one with an unknown
  action, one that is not an object, one without a description, \<open>null\<close>, and one whose
  file is empty and whose description is blank.\<close>

definition rawItems :: "json list" where
  "rawItems =
     [JObject [(''file'', JString '' src/index.ts ''), (''action'', JString ''modify''),
               (''description'', JString ''Register the command'')],
      JObject [(''file'', JString ''src/a.ts''), (''action'', JString ''rename''),
               (''description'', JString ''Rename it'')],
      JString ''new'',
      JObject [(''file'', JString ''src/b.ts''), (''action'', JString ''new'')],
      JNull,
      JObject [(''file'', JString []), (''action'', JString ''new''),
               (''description'', JString ''  '')]]"

text \<open>A workspace: two manifests, one of them a byte too large and one exactly at the
  limit (an empty JSON object followed by blanks), twenty source files, one of which
  has no readable size and one no readable content, and a search for Markdown files
  that fails. Every size is the length of the content.\<close>

definition manifestText :: string where
  "manifestText = ''{}'' @ replicate 49998 (CHR '' '')"

definition bigText :: string where
  "bigText = replicate 50001 (CHR ''x'')"

definition sourceFiles :: "string list" where
  "sourceFiles =
     [''/proj/src/a.ts'', ''/proj/src/b.ts'', ''/proj/src/c.ts'', ''/proj/src/d.ts'',
      ''/proj/src/e.ts'', ''/proj/src/f.ts'', ''/proj/src/g.ts'', ''/proj/src/h.ts'',
      ''/proj/src/i.ts'', ''/proj/src/j.ts'', ''/proj/src/k.ts'', ''/proj/src/l.ts'',
      ''/proj/src/m.ts'', ''/proj/src/n.ts'', ''/proj/src/o.ts'', ''/proj/src/p.ts'',
      ''/proj/src/q.ts'', ''/proj/src/r.ts'', ''/proj/src/s.ts'', ''/proj/src/t.ts'']"

definition demoWorkspace :: Workspace where
  "demoWorkspace =
     \<lparr>workspaceFolders = Some [''/proj''],
      findFiles = (\<lambda>pattern n.
         if pattern = ''**/package.json''
         then Some [''/proj/big/package.json'', ''/proj/package.json'']
         else if pattern = ''**/src/**/*.{ts,tsx,js,jsx}'' then Some sourceFiles
         else if pattern = ''**/lib/**/*.{ts,tsx,js,jsx}''
         then Some [''/proj/lib/y.ts'', ''/proj/lib/z.ts'']
         else if pattern = ''**/*.md'' then None
         else Some []),
      stat = (\<lambda>f. if f = ''/proj/big/package.json'' then Some 50001
                   else if f = ''/proj/package.json'' then Some 50000
                   else if f = ''/proj/src/c.ts'' then None
                   else Some 9),
      readFile = (\<lambda>f. if f = ''/proj/big/package.json'' then Some bigText
                       else if f = ''/proj/package.json'' then Some manifestText
                       else if f = ''/proj/src/d.ts'' then None
                       else Some ''export {}''),
      asRelativePath = drop 6,
      extname = (\<lambda>f. if endsWith f ''.json'' then ''.json'' else ''.ts''),
      manifestDependencies = (\<lambda>t. if t = manifestText then Some [] else None),
      readDirectory = (\<lambda>d.
         Some [FsNode ''.git'' Directory None,
               FsNode ''src'' Directory (Some [FsNode ''a.ts'' RegularFile None]),
               FsNode ''node_modules'' Directory None,
               FsNode ''package.json'' RegularFile None])\<rparr>"

definition demoFile :: "string \<Rightarrow> FileInfo" where
  "demoFile p = \<lparr>path = p, content = ''export {}'', language = ''TypeScript'', fileSize = 9\<rparr>"

definition demoContext :: CodebaseContext where
  "demoContext =
     \<lparr>projectType = ''Node.js Project'',
      frameworks = [],
      languages = [''JSON'', ''TypeScript''],
      keyFiles =
        \<lparr>path = ''package.json'', content = manifestText, language = ''JSON'',
          fileSize = 50000\<rparr> #
        map demoFile
          [''src/a.ts'', ''src/b.ts'', ''src/e.ts'', ''src/f.ts'', ''src/g.ts'', ''src/h.ts'',
           ''src/i.ts'', ''src/j.ts'', ''src/k.ts'', ''src/l.ts'', ''src/m.ts'', ''src/n.ts'',
           ''src/o.ts'', ''src/p.ts'', ''src/q.ts'', ''src/r.ts'', ''src/s.ts'', ''src/t.ts'',
           ''lib/y.ts''],
      projectStructure =
        ''src'' @ [CHR 0x0A] @ ''  a.ts'' @ [CHR 0x0A] @ ''package.json'' @ [CHR 0x0A],
      dependencies = []\<rparr>"

text \<open>A sidebar whose view has been resolved, before and after the analysis of that
  workspace has settled.\<close>

definition resolvedSidebar :: SidebarProvider where
  "resolvedSidebar = resolveWebviewView newSidebarProvider"

definition analyzedSidebar :: SidebarProvider where
  "analyzedSidebar = analysisSettled demoWorkspace resolvedSidebar"

section \<open>Properties of the string operations\<close>

lemma str_includes_iff: "str_includes s t \<longleftrightarrow> (\<exists>xs ys. s = xs @ t @ ys)"
proof (induction s)
  case Nil
  then show ?case by auto
next
  case (Cons c cs)
  show ?case
  proof
    assume "str_includes (c # cs) t"
    then consider "take (length t) (c # cs) = t" | "str_includes cs t" by auto
    then show "\<exists>xs ys. c # cs = xs @ t @ ys"
    proof cases
      case 1
      then have "c # cs = [] @ t @ drop (length t) (c # cs)"
        by (metis append_Nil append_take_drop_id)
      then show ?thesis by blast
    next
      case 2
      then obtain xs ys where "cs = xs @ t @ ys" using Cons.IH by blast
      then have "c # cs = (c # xs) @ t @ ys" by simp
      then show ?thesis by blast
    qed
  next
    assume "\<exists>xs ys. c # cs = xs @ t @ ys"
    then obtain xs ys where e: "c # cs = xs @ t @ ys" by blast
    show "str_includes (c # cs) t"
    proof (cases xs)
      case Nil
      then have "take (length t) (c # cs) = t" using e by simp
      then show ?thesis by simp
    next
      case (Cons x xs')
      then have "cs = xs' @ t @ ys" using e by simp
      then have "str_includes cs t" using Cons.IH by blast
      then show ?thesis by simp
    qed
  qed
qed

lemma str_includes_toLowerCase:
  assumes "str_includes s t" and "toLowerCase t = t"
  shows "str_includes (toLowerCase s) t"
proof -
  obtain xs ys where "s = xs @ t @ ys" using assms(1) str_includes_iff by blast
  then have "toLowerCase s = toLowerCase xs @ t @ toLowerCase ys"
    using assms(2) by (simp add: toLowerCase_def)
  then show ?thesis using str_includes_iff by blast
qed

lemma toLowerCase_auth: "toLowerCase ''auth'' = ''auth''"
  by (simp add: toLowerCase_def toLowerChar_def)

lemma trim_prefix: "\<exists>w. dropWhile isWhiteSpace s = trim s @ w"
proof -
  let ?u = "dropWhile isWhiteSpace s"
  have "rev (takeWhile isWhiteSpace (rev ?u) @ dropWhile isWhiteSpace (rev ?u)) = ?u"
    by (simp only: takeWhile_dropWhile_id rev_rev_ident)
  then have "rev (dropWhile isWhiteSpace (rev ?u)) @ rev (takeWhile isWhiteSpace (rev ?u)) = ?u"
    by (simp only: rev_append)
  then have "?u = trim s @ rev (takeWhile isWhiteSpace (rev ?u))"
    by (simp only: trim_def)
  then show ?thesis by blast
qed

lemma dropWhile_trim: "dropWhile isWhiteSpace (trim s) = trim s"
proof (cases "trim s")
  case Nil
  then show ?thesis by simp
next
  case (Cons c cs)
  obtain w where w: "dropWhile isWhiteSpace s = trim s @ w" using trim_prefix by blast
  then have "hd (dropWhile isWhiteSpace s) = c" using Cons by simp
  moreover have "dropWhile isWhiteSpace s \<noteq> []" using w Cons by simp
  ultimately have "\<not> isWhiteSpace c" using hd_dropWhile by metis
  then show ?thesis using Cons by simp
qed

lemma trim_trim: "trim (trim s) = trim s"
proof -
  have "trim (trim s) = rev (dropWhile isWhiteSpace (rev (trim s)))"
    by (simp add: trim_def [of "trim s"] dropWhile_trim)
  also have "rev (trim s) = dropWhile isWhiteSpace (rev (dropWhile isWhiteSpace s))"
    by (simp add: trim_def)
  also have "rev (dropWhile isWhiteSpace (dropWhile isWhiteSpace (rev (dropWhile isWhiteSpace s))))
      = trim s"
    by (simp add: trim_def)
  finally show ?thesis .
qed


section \<open>Properties of the generation adapter\<close>

subsection \<open>Fallbacks\<close>

lemma fallback_questions_cases:
  "getFallbackClarificationQuestions r \<in>
     {authQuestions, apiQuestions, databaseQuestions, genericQuestions}"
  by (simp add: getFallbackClarificationQuestions_def Let_def)

lemma fallback_questions_length: "length (getFallbackClarificationQuestions r) = 3"
  by (simp add: getFallbackClarificationQuestions_def Let_def authQuestions_def
      apiQuestions_def databaseQuestions_def genericQuestions_def)

lemma fallback_questions_nonempty: "getFallbackClarificationQuestions r \<noteq> []"
  using fallback_questions_length [of r] by auto

lemma authQuestions_mark: "\<forall>q \<in> set authQuestions. str_includes q ''?''"
  by (simp add: authQuestions_def)

lemma apiQuestions_mark: "\<forall>q \<in> set apiQuestions. str_includes q ''?''"
  by (simp add: apiQuestions_def)

lemma databaseQuestions_mark: "\<forall>q \<in> set databaseQuestions. str_includes q ''?''"
  by (simp add: databaseQuestions_def)

lemma genericQuestions_mark: "\<forall>q \<in> set genericQuestions. str_includes q ''?''"
  by (simp add: genericQuestions_def)

lemma fallback_questions_mark:
  "q \<in> set (getFallbackClarificationQuestions r) \<Longrightarrow> str_includes q ''?''"
  using authQuestions_mark apiQuestions_mark databaseQuestions_mark genericQuestions_mark
    fallback_questions_cases [of r]
  by auto

lemma authPlan_schema:
  "\<forall>p \<in> set authPlan. action p \<in> set validActions \<and> filePath p \<noteq> [] \<and> description p \<noteq> []"
  by (simp add: authPlan_def validActions_def)

lemma genericPlan_schema:
  "\<forall>p \<in> set genericPlan. action p \<in> set validActions \<and> filePath p \<noteq> [] \<and> description p \<noteq> []"
  by (simp add: genericPlan_def validActions_def)

lemma authPlan_trimmed:
  "\<forall>p \<in> set authPlan. trim (filePath p) = filePath p \<and> trim (description p) = description p"
  by (simp add: authPlan_def trim_def isWhiteSpace_def)

lemma genericPlan_trimmed:
  "\<forall>p \<in> set genericPlan. trim (filePath p) = filePath p \<and> trim (description p) = description p"
  by (simp add: genericPlan_def trim_def isWhiteSpace_def)

lemma fallback_plan_cases: "getFallbackPlan r \<in> {authPlan, genericPlan}"
  by (simp add: getFallbackPlan_def Let_def)

lemma fallback_plan_schema:
  "p \<in> set (getFallbackPlan r) \<Longrightarrow>
     action p \<in> set validActions \<and> filePath p \<noteq> [] \<and> description p \<noteq> []"
  using authPlan_schema genericPlan_schema fallback_plan_cases [of r] by auto

lemma fallback_plan_trimmed:
  "p \<in> set (getFallbackPlan r) \<Longrightarrow>
     trim (filePath p) = filePath p \<and> trim (description p) = description p"
  using authPlan_trimmed genericPlan_trimmed fallback_plan_cases [of r] by auto

lemma fallback_plan_nonempty: "getFallbackPlan r \<noteq> []"
  by (simp add: getFallbackPlan_def Let_def authPlan_def genericPlan_def)


subsection \<open>Parsed replies\<close>

lemma parseQuestions_length: "length (parseQuestions t) \<le> 3"
  by (simp add: parseQuestions_def)

lemma parseQuestions_mark: "q \<in> set (parseQuestions t) \<Longrightarrow> str_includes q ''?''"
  unfolding parseQuestions_def by (auto dest: in_set_takeD)

lemma keepItem_iff:
  "keepItem item \<longleftrightarrow>
     (\<exists>kvs f a d. item = JObject kvs \<and>
        map_of (rev kvs) ''file'' = Some (JString f) \<and>
        map_of (rev kvs) ''action'' = Some (JString a) \<and>
        map_of (rev kvs) ''description'' = Some (JString d) \<and>
        a \<in> {''new'', ''modify'', ''remove''})"
  by (cases item)
    (auto simp: keepItem_def isStringProp_def stringProp_def validActions_def
      split: option.splits json.splits)

lemma validatedPlan_action:
  "p \<in> set (validatedPlan items) \<Longrightarrow> action p \<in> set validActions"
  by (auto simp: validatedPlan_def toPlanItem_def keepItem_def)

lemma validatedPlan_trimmed:
  "p \<in> set (validatedPlan items) \<Longrightarrow>
     trim (filePath p) = filePath p \<and> trim (description p) = description p"
  by (auto simp: validatedPlan_def toPlanItem_def trim_trim)

lemma generatePlan_cases:
  "generatePlan backend r answers = getFallbackPlan r \<or>
   (\<exists>items. backend = Returned (JArray items) \<and> validatedPlan items \<noteq> [] \<and>
      generatePlan backend r answers = validatedPlan items)"
  by (cases backend) (auto simp: generatePlan_def split: json.splits)

subsection \<open>Validation of plan elements\<close>

lemma generatePlan_of_array:
  "generatePlan (Returned (JArray items)) r answers =
     (if filter keepItem items = [] then getFallbackPlan r
      else map toPlanItem (filter keepItem items))"
  by (simp add: generatePlan_def validatedPlan_def)

lemma generatePlan_no_array:
  "\<forall>items. backend \<noteq> Returned (JArray items) \<Longrightarrow>
   generatePlan backend r answers = getFallbackPlan r"
  by (cases backend) (auto simp: generatePlan_def split: json.splits)

text \<open>
  Claim C1, as amended. \<open>generatePlan\<close> keeps a raw element of the parsed response exactly
  when it is an object whose \<open>file\<close>, \<open>action\<close> and \<open>description\<close> are strings and whose
  \<open>action\<close> is one of \<open>new\<close>, \<open>modify\<close>, \<open>remove\<close>. Every other element is dropped; nothing
  is defaulted. A kept element becomes a plan item with the same action and with its file
  and description trimmed. When the response is an array with at least one such element,
  \<open>generatePlan\<close> returns exactly these items, in the order of the response; in every other
  case it returns the fallback plan. So every item of the returned plan has a valid
  action and a trimmed file and description. The file and the description of an item may
  be empty: the filter does not test that.
\<close>

theorem generatePlan_validation:
  "(keepItem item \<longleftrightarrow>
      (\<exists>kvs f a d. item = JObject kvs \<and>
         map_of (rev kvs) ''file'' = Some (JString f) \<and>
         map_of (rev kvs) ''action'' = Some (JString a) \<and>
         map_of (rev kvs) ''description'' = Some (JString d) \<and>
         a \<in> {''new'', ''modify'', ''remove''})) \<and>
   (map_of (rev kvs) ''file'' = Some (JString f) \<and>
    map_of (rev kvs) ''action'' = Some (JString a) \<and>
    map_of (rev kvs) ''description'' = Some (JString d) \<longrightarrow>
      toPlanItem (JObject kvs) = \<lparr>filePath = trim f, action = a, description = trim d\<rparr>) \<and>
   validatedPlan items = map toPlanItem (filter keepItem items) \<and>
   generatePlan (Returned (JArray items)) r answers =
     (if filter keepItem items = [] then getFallbackPlan r
      else map toPlanItem (filter keepItem items)) \<and>
   ((\<forall>xs. backend \<noteq> Returned (JArray xs)) \<longrightarrow>
      generatePlan backend r answers = getFallbackPlan r) \<and>
   (\<forall>p \<in> set (generatePlan backend r answers).
      action p \<in> {''new'', ''modify'', ''remove''} \<and>
      trim (filePath p) = filePath p \<and> trim (description p) = description p)"
proof (intro conjI impI ballI)
  show "keepItem item \<longleftrightarrow>
      (\<exists>kvs f a d. item = JObject kvs \<and>
         map_of (rev kvs) ''file'' = Some (JString f) \<and>
         map_of (rev kvs) ''action'' = Some (JString a) \<and>
         map_of (rev kvs) ''description'' = Some (JString d) \<and>
         a \<in> {''new'', ''modify'', ''remove''})"
    by (rule keepItem_iff)
next
  assume "map_of (rev kvs) ''file'' = Some (JString f) \<and>
    map_of (rev kvs) ''action'' = Some (JString a) \<and>
    map_of (rev kvs) ''description'' = Some (JString d)"
  then show "toPlanItem (JObject kvs) = \<lparr>filePath = trim f, action = a, description = trim d\<rparr>"
    by (simp add: toPlanItem_def stringProp_def)
next
  show "validatedPlan items = map toPlanItem (filter keepItem items)"
    by (simp add: validatedPlan_def)
next
  show "generatePlan (Returned (JArray items)) r answers =
     (if filter keepItem items = [] then getFallbackPlan r
      else map toPlanItem (filter keepItem items))"
    by (rule generatePlan_of_array)
next
  assume "\<forall>xs. backend \<noteq> Returned (JArray xs)"
  then show "generatePlan backend r answers = getFallbackPlan r"
    by (rule generatePlan_no_array)
next
  fix p
  assume p: "p \<in> set (generatePlan backend r answers)"
  have "action p \<in> set validActions \<and>
      trim (filePath p) = filePath p \<and> trim (description p) = description p"
    using p generatePlan_cases [of backend r answers]
      fallback_plan_schema [of p r] fallback_plan_trimmed [of p r]
      validatedPlan_action [of p] validatedPlan_trimmed [of p]
    by auto
  then show "action p \<in> {''new'', ''modify'', ''remove''}"
    and "trim (filePath p) = filePath p"
    and "trim (description p) = description p"
    by (simp_all add: validActions_def)
qed

theorem generatePlan_validation_witness:
  "filter keepItem rawItems =
     [JObject [(''file'', JString '' src/index.ts ''), (''action'', JString ''modify''),
               (''description'', JString ''Register the command'')],
      JObject [(''file'', JString []), (''action'', JString ''new''),
               (''description'', JString ''  '')]] \<and>
   generatePlan (Returned (JArray rawItems)) ''Add a dashboard page'' [] =
     [\<lparr>filePath = ''src/index.ts'', action = ''modify'',
       description = ''Register the command''\<rparr>,
      \<lparr>filePath = [], action = ''new'', description = []\<rparr>] \<and>
   action \<lparr>filePath = [], action = ''new'', description = []\<rparr>
     \<in> {''new'', ''modify'', ''remove''} \<and>
   generatePlan (Returned (JArray [JString ''new'', JNull])) ''Add a dashboard page'' [] =
     genericPlan \<and>
   generatePlan (Returned (JObject [])) ''Add a dashboard page'' [] = genericPlan \<and>
   generatePlan Raised ''Add a dashboard page'' [] = genericPlan"
proof -
  have kept: "filter keepItem rawItems =
     [JObject [(''file'', JString '' src/index.ts ''), (''action'', JString ''modify''),
               (''description'', JString ''Register the command'')],
      JObject [(''file'', JString []), (''action'', JString ''new''),
               (''description'', JString ''  '')]]"
    by code_simp
  have items: "map toPlanItem
     [JObject [(''file'', JString '' src/index.ts ''), (''action'', JString ''modify''),
               (''description'', JString ''Register the command'')],
      JObject [(''file'', JString []), (''action'', JString ''new''),
               (''description'', JString ''  '')]] =
     [\<lparr>filePath = ''src/index.ts'', action = ''modify'',
       description = ''Register the command''\<rparr>,
      \<lparr>filePath = [], action = ''new'', description = []\<rparr>]"
    by code_simp
  have none: "filter keepItem [JString ''new'', JNull] = []"
    by code_simp
  have fb: "getFallbackPlan ''Add a dashboard page'' = genericPlan"
    by code_simp
  have run: "generatePlan (Returned (JArray rawItems)) ''Add a dashboard page'' [] =
     [\<lparr>filePath = ''src/index.ts'', action = ''modify'',
       description = ''Register the command''\<rparr>,
      \<lparr>filePath = [], action = ''new'', description = []\<rparr>]"
  proof -
    have "generatePlan (Returned (JArray rawItems)) ''Add a dashboard page'' [] =
       (if filter keepItem rawItems = [] then getFallbackPlan ''Add a dashboard page''
        else map toPlanItem (filter keepItem rawItems))"
      using generatePlan_validation
        [where items = rawItems and r = "''Add a dashboard page''" and answers = "[]"]
      by blast
    then show ?thesis unfolding kept items by simp
  qed
  have valid: "\<forall>p \<in> set (generatePlan (Returned (JArray rawItems)) ''Add a dashboard page'' []).
      action p \<in> {''new'', ''modify'', ''remove''}"
    using generatePlan_validation
      [where backend = "Returned (JArray rawItems)" and r = "''Add a dashboard page''"
         and answers = "[]"]
    by blast
  have last: "action \<lparr>filePath = [], action = ''new'', description = []\<rparr>
     \<in> {''new'', ''modify'', ''remove''}"
    using valid unfolding run by simp
  have empty: "generatePlan (Returned (JArray [JString ''new'', JNull]))
      ''Add a dashboard page'' [] = genericPlan"
  proof -
    have "generatePlan (Returned (JArray [JString ''new'', JNull])) ''Add a dashboard page'' [] =
       (if filter keepItem [JString ''new'', JNull] = []
        then getFallbackPlan ''Add a dashboard page''
        else map toPlanItem (filter keepItem [JString ''new'', JNull]))"
      using generatePlan_validation
        [where items = "[JString ''new'', JNull]" and r = "''Add a dashboard page''"
           and answers = "[]"]
      by blast
    then show ?thesis unfolding none fb by simp
  qed
  have object: "generatePlan (Returned (JObject [])) ''Add a dashboard page'' [] = genericPlan"
  proof -
    have "(\<forall>xs. Returned (JObject []) \<noteq> Returned (JArray xs)) \<longrightarrow>
        generatePlan (Returned (JObject [])) ''Add a dashboard page'' [] =
          getFallbackPlan ''Add a dashboard page''"
      using generatePlan_validation
        [where backend = "Returned (JObject [])" and r = "''Add a dashboard page''"
           and answers = "[]"]
      by blast
    then show ?thesis by (simp add: fb)
  qed
  have raised: "generatePlan Raised ''Add a dashboard page'' [] = genericPlan"
  proof -
    have "(\<forall>xs. Raised \<noteq> Returned (JArray xs)) \<longrightarrow>
        generatePlan Raised ''Add a dashboard page'' [] =
          getFallbackPlan ''Add a dashboard page''"
      using generatePlan_validation
        [where backend = Raised and r = "''Add a dashboard page''" and answers = "[]"]
      by blast
    then show ?thesis by (simp add: fb)
  qed
  show ?thesis using kept run last empty object raised by blast
qed

text \<open>
  Claim C1 as stated fails: an element whose file is empty and whose description is blank
  passes the filter, and the plan that is returned holds an item with an empty file and
  an empty description.
\<close>

theorem generatePlan_keeps_empty_file:
  "keepItem (JObject [(''file'', JString []), (''action'', JString ''new''),
                      (''description'', JString ''  '')]) \<and>
   generatePlan
     (Returned (JArray [JObject [(''file'', JString []), (''action'', JString ''new''),
                                 (''description'', JString ''  '')]]))
     ''Add a dashboard page'' []
   = [\<lparr>filePath = [], action = ''new'', description = []\<rparr>] \<and>
   getFallbackPlan ''Add a dashboard page'' \<noteq> [\<lparr>filePath = [], action = ''new'', description = []\<rparr>]"
  by code_simp

subsection \<open>Shape of the clarification questions\<close>

text \<open>
  Claim C5. For every request, and whatever the backend does, \<open>generateClarificationQuestions\<close>
  returns at least one and at most three strings, and each of them contains a question
  mark. When the backend is unavailable (not initialized, or the call raises), a request
  that contains \<open>auth\<close> gets exactly the three authentication questions.
\<close>

theorem clarification_questions_shape:
  "1 \<le> length (generateClarificationQuestions backend r) \<and>
   length (generateClarificationQuestions backend r) \<le> 3 \<and>
   (\<forall>q \<in> set (generateClarificationQuestions backend r). str_includes q ''?'') \<and>
   (str_includes r ''auth'' \<and> backend \<in> {NotInitialized, Raised} \<longrightarrow>
      generateClarificationQuestions backend r = authQuestions)"
proof (intro conjI)
  show "1 \<le> length (generateClarificationQuestions backend r)"
    by (cases backend)
      (auto simp: generateClarificationQuestions_def Let_def fallback_questions_nonempty Suc_le_eq)
  show "length (generateClarificationQuestions backend r) \<le> 3"
    by (cases backend)
      (auto simp: generateClarificationQuestions_def Let_def fallback_questions_length
        parseQuestions_length)
  show "\<forall>q \<in> set (generateClarificationQuestions backend r). str_includes q ''?''"
    by (cases backend)
      (auto simp: generateClarificationQuestions_def Let_def
        dest: fallback_questions_mark parseQuestions_mark)
  show "str_includes r ''auth'' \<and> backend \<in> {NotInitialized, Raised} \<longrightarrow>
      generateClarificationQuestions backend r = authQuestions"
  proof
    assume a: "str_includes r ''auth'' \<and> backend \<in> {NotInitialized, Raised}"
    then have "str_includes (toLowerCase r) ''auth''"
      using str_includes_toLowerCase toLowerCase_auth by blast
    then have "getFallbackClarificationQuestions r = authQuestions"
      by (simp add: getFallbackClarificationQuestions_def)
    then show "generateClarificationQuestions backend r = authQuestions"
      using a by (auto simp: generateClarificationQuestions_def)
  qed
qed

theorem clarification_questions_shape_witness:
  "str_includes ''Add user authentication with Auth0'' ''auth'' \<and>
   generateClarificationQuestions NotInitialized ''Add user authentication with Auth0'' =
     [''Which authentication service would you like to use (Auth0, Firebase, or build custom)?'',
      ''Do you need social login options like Google or GitHub?'',
      ''Should this work with your existing user database?''] \<and>
   ''Do you need social login options like Google or GitHub?''
     \<in> set (generateClarificationQuestions NotInitialized ''Add user authentication with Auth0'') \<and>
   str_includes ''Do you need social login options like Google or GitHub?'' ''?''"
proof -
  have h: "str_includes ''Add user authentication with Auth0'' ''auth''" by simp
  have m: "str_includes ''Do you need social login options like Google or GitHub?'' ''?''"
    by simp
  show ?thesis
    using h m clarification_questions_shape [of NotInitialized "''Add user authentication with Auth0''"]
    by (simp add: authQuestions_def)
qed

subsection \<open>The fallback when the backend is not initialized\<close>

lemma fallback_questions_rule:
  "getFallbackClarificationQuestions r =
     (if str_includes (toLowerCase r) ''auth'' then authQuestions
      else if str_includes (toLowerCase r) ''api'' \<or> str_includes (toLowerCase r) ''endpoint''
      then apiQuestions
      else if str_includes (toLowerCase r) ''database'' \<or> str_includes (toLowerCase r) ''db''
      then databaseQuestions
      else genericQuestions)"
  by (simp add: getFallbackClarificationQuestions_def Let_def)

lemma fallback_plan_rule:
  "getFallbackPlan r =
     (if str_includes (toLowerCase r) ''auth'' then authPlan else genericPlan)"
  by (simp add: getFallbackPlan_def Let_def)

lemma fallback_lists_distinct:
  "distinct [authQuestions, apiQuestions, databaseQuestions, genericQuestions] \<and>
   authPlan \<noteq> genericPlan"
  by (simp add: authQuestions_def apiQuestions_def databaseQuestions_def genericQuestions_def
      authPlan_def genericPlan_def)

text \<open>
  Claim C6, as amended. When the backend is not initialized both operations return their
  fallback, which is computed from the lower-cased request by substring tests only. The
  fallback questions are selected among four fixed lists: the authentication list when
  the request contains \<open>auth\<close>, else the API list when it contains \<open>api\<close> or \<open>endpoint\<close>, else
  the database list when it contains \<open>database\<close> or \<open>db\<close>, else the generic list. The
  fallback plan is selected among two fixed plans: the authentication plan when the
  request contains \<open>auth\<close>, else the generic plan, also for API and database requests. The
  four lists differ from one another and so do the two plans. For every request the
  questions are three strings with a question mark each, and the plan is not empty and
  each of its items has a valid action and a non-empty file and description, which is
  what a result derived from the backend has to satisfy.
\<close>

theorem fallback_nonempty_schema:
  "generateClarificationQuestions NotInitialized r = getFallbackClarificationQuestions r \<and>
   generatePlan NotInitialized r answers = getFallbackPlan r \<and>
   getFallbackClarificationQuestions r =
     (if str_includes (toLowerCase r) ''auth'' then authQuestions
      else if str_includes (toLowerCase r) ''api'' \<or> str_includes (toLowerCase r) ''endpoint''
      then apiQuestions
      else if str_includes (toLowerCase r) ''database'' \<or> str_includes (toLowerCase r) ''db''
      then databaseQuestions
      else genericQuestions) \<and>
   getFallbackPlan r =
     (if str_includes (toLowerCase r) ''auth'' then authPlan else genericPlan) \<and>
   distinct [authQuestions, apiQuestions, databaseQuestions, genericQuestions] \<and>
   authPlan \<noteq> genericPlan \<and>
   getFallbackClarificationQuestions r
     \<in> {authQuestions, apiQuestions, databaseQuestions, genericQuestions} \<and>
   getFallbackPlan r \<in> {authPlan, genericPlan} \<and>
   length (getFallbackClarificationQuestions r) = 3 \<and>
   (\<forall>q \<in> set (getFallbackClarificationQuestions r). str_includes q ''?'') \<and>
   getFallbackPlan r \<noteq> [] \<and>
   (\<forall>p \<in> set (getFallbackPlan r).
      action p \<in> {''new'', ''modify'', ''remove''} \<and> filePath p \<noteq> [] \<and> description p \<noteq> [])"
proof (intro conjI ballI)
  show "generateClarificationQuestions NotInitialized r = getFallbackClarificationQuestions r"
    by (simp add: generateClarificationQuestions_def)
  show "generatePlan NotInitialized r answers = getFallbackPlan r"
    by (simp add: generatePlan_def)
  show "getFallbackClarificationQuestions r =
     (if str_includes (toLowerCase r) ''auth'' then authQuestions
      else if str_includes (toLowerCase r) ''api'' \<or> str_includes (toLowerCase r) ''endpoint''
      then apiQuestions
      else if str_includes (toLowerCase r) ''database'' \<or> str_includes (toLowerCase r) ''db''
      then databaseQuestions
      else genericQuestions)"
    by (rule fallback_questions_rule)
  show "getFallbackPlan r =
     (if str_includes (toLowerCase r) ''auth'' then authPlan else genericPlan)"
    by (rule fallback_plan_rule)
  show "distinct [authQuestions, apiQuestions, databaseQuestions, genericQuestions]"
    using fallback_lists_distinct by blast
  show "authPlan \<noteq> genericPlan"
    using fallback_lists_distinct by blast
  show "getFallbackClarificationQuestions r
     \<in> {authQuestions, apiQuestions, databaseQuestions, genericQuestions}"
    by (rule fallback_questions_cases)
  show "getFallbackPlan r \<in> {authPlan, genericPlan}"
    by (rule fallback_plan_cases)
  show "length (getFallbackClarificationQuestions r) = 3"
    by (rule fallback_questions_length)
  show "getFallbackPlan r \<noteq> []"
    by (rule fallback_plan_nonempty)
next
  fix q
  assume "q \<in> set (getFallbackClarificationQuestions r)"
  then show "str_includes q ''?''" by (rule fallback_questions_mark)
next
  fix p
  assume "p \<in> set (getFallbackPlan r)"
  then have "action p \<in> set validActions \<and> filePath p \<noteq> [] \<and> description p \<noteq> []"
    by (rule fallback_plan_schema)
  then show "action p \<in> {''new'', ''modify'', ''remove''}"
    and "filePath p \<noteq> []" and "description p \<noteq> []"
    by (simp_all add: validActions_def)
qed

theorem fallback_nonempty_schema_witness:
  "getFallbackClarificationQuestions ''Create a REST api endpoint'' = apiQuestions \<and>
   getFallbackPlan ''Create a REST api endpoint'' = genericPlan \<and>
   getFallbackClarificationQuestions ''Add user authentication with Auth0'' = authQuestions \<and>
   getFallbackPlan ''Add user authentication with Auth0'' = authPlan \<and>
   authPlan \<noteq> genericPlan \<and>
   ''What database should this connect to?''
     \<in> set (getFallbackClarificationQuestions ''Create a REST api endpoint'') \<and>
   str_includes ''What database should this connect to?'' ''?'' \<and>
   \<lparr>filePath = ''src/App.tsx'', action = ''modify'',
     description = ''Integrate new feature into main application''\<rparr>
     \<in> set (getFallbackPlan ''Create a REST api endpoint'') \<and>
   action \<lparr>filePath = ''src/App.tsx'', action = ''modify'',
     description = ''Integrate new feature into main application''\<rparr>
     \<in> {''new'', ''modify'', ''remove''}"
proof -
  have a1: "\<not> str_includes (toLowerCase ''Create a REST api endpoint'') ''auth''"
    by code_simp
  have a2: "str_includes (toLowerCase ''Create a REST api endpoint'') ''api''"
    by code_simp
  have b1: "str_includes (toLowerCase ''Add user authentication with Auth0'') ''auth''"
    by code_simp
  note api = fallback_nonempty_schema [where r = "''Create a REST api endpoint''"]
  note auth = fallback_nonempty_schema [where r = "''Add user authentication with Auth0''"]
  have q1: "getFallbackClarificationQuestions ''Create a REST api endpoint'' = apiQuestions"
    using api a1 a2 by simp
  have p1: "getFallbackPlan ''Create a REST api endpoint'' = genericPlan"
    using api a1 by simp
  have q2: "getFallbackClarificationQuestions ''Add user authentication with Auth0'' = authQuestions"
    using auth b1 by simp
  have p2: "getFallbackPlan ''Add user authentication with Auth0'' = authPlan"
    using auth b1 by simp
  have d: "authPlan \<noteq> genericPlan"
    using api by blast
  have q: "''What database should this connect to?''
     \<in> set (getFallbackClarificationQuestions ''Create a REST api endpoint'')"
    unfolding q1 by (simp add: apiQuestions_def)
  have p: "\<lparr>filePath = ''src/App.tsx'', action = ''modify'',
     description = ''Integrate new feature into main application''\<rparr>
     \<in> set (getFallbackPlan ''Create a REST api endpoint'')"
    unfolding p1 by (simp add: genericPlan_def)
  have marks: "str_includes ''What database should this connect to?'' ''?''"
    using api q by blast
  have act: "action \<lparr>filePath = ''src/App.tsx'', action = ''modify'',
     description = ''Integrate new feature into main application''\<rparr>
     \<in> {''new'', ''modify'', ''remove''}"
    using api p by blast
  show ?thesis using q1 p1 q2 p2 d q marks p act by blast
qed

text \<open>
  Claim C6 as stated fails for the plan: \<open>getFallbackPlan\<close> does not look for the API and
  database keywords. A request of the API bucket and one of the database bucket get the
  plan of a request without any keyword, while their questions differ; only a request of
  the authentication bucket gets another plan.
\<close>

theorem fallback_plan_two_buckets:
  "getFallbackClarificationQuestions ''Create a REST api endpoint'' = apiQuestions \<and>
   getFallbackClarificationQuestions ''Migrate the database'' = databaseQuestions \<and>
   getFallbackClarificationQuestions ''Make the button blue'' = genericQuestions \<and>
   getFallbackPlan ''Create a REST api endpoint'' = getFallbackPlan ''Make the button blue'' \<and>
   getFallbackPlan ''Migrate the database'' = getFallbackPlan ''Make the button blue'' \<and>
   getFallbackPlan ''Make the button blue'' = genericPlan \<and>
   apiQuestions \<noteq> genericQuestions \<and> databaseQuestions \<noteq> genericQuestions \<and>
   getFallbackPlan ''Add user authentication with Auth0'' = authPlan \<and>
   authPlan \<noteq> genericPlan"
  by code_simp

subsection \<open>Order of the keyword buckets\<close>

text \<open>
  Claim C10, as amended. The fallback looks at the request in lower case and tests for
  substrings in a fixed order. For the questions the order is \<open>auth\<close> first, then \<open>api\<close> or
  \<open>endpoint\<close>, then \<open>database\<close> or \<open>db\<close>, and the generic list is what remains. For the plan
  there are two buckets only: \<open>auth\<close> is tested, and every request without it gets the
  generic plan, whether or not it contains \<open>api\<close>, \<open>endpoint\<close>, \<open>database\<close> or \<open>db\<close>. So a
  request whose lower-case text contains \<open>auth\<close>, also inside a longer word, gets the
  authentication questions and the authentication plan whatever else it contains, and
  two requests that differ in case only get the same fallback.
\<close>

theorem fallback_bucket_order:
  "(str_includes (toLowerCase r) ''auth'' \<longrightarrow>
      getFallbackClarificationQuestions r = authQuestions \<and> getFallbackPlan r = authPlan) \<and>
   (\<not> str_includes (toLowerCase r) ''auth'' \<and>
    (str_includes (toLowerCase r) ''api'' \<or> str_includes (toLowerCase r) ''endpoint'') \<longrightarrow>
      getFallbackClarificationQuestions r = apiQuestions) \<and>
   (\<not> str_includes (toLowerCase r) ''auth'' \<and>
    \<not> str_includes (toLowerCase r) ''api'' \<and> \<not> str_includes (toLowerCase r) ''endpoint'' \<and>
    (str_includes (toLowerCase r) ''database'' \<or> str_includes (toLowerCase r) ''db'') \<longrightarrow>
      getFallbackClarificationQuestions r = databaseQuestions) \<and>
   (\<not> str_includes (toLowerCase r) ''auth'' \<and>
    \<not> str_includes (toLowerCase r) ''api'' \<and> \<not> str_includes (toLowerCase r) ''endpoint'' \<and>
    \<not> str_includes (toLowerCase r) ''database'' \<and> \<not> str_includes (toLowerCase r) ''db'' \<longrightarrow>
      getFallbackClarificationQuestions r = genericQuestions) \<and>
   (\<not> str_includes (toLowerCase r) ''auth'' \<longrightarrow> getFallbackPlan r = genericPlan) \<and>
   authPlan \<noteq> genericPlan \<and>
   authQuestions \<notin> {apiQuestions, databaseQuestions, genericQuestions} \<and>
   (toLowerCase r = toLowerCase r' \<longrightarrow>
      getFallbackClarificationQuestions r = getFallbackClarificationQuestions r' \<and>
      getFallbackPlan r = getFallbackPlan r')"
  using fallback_lists_distinct
  by (simp add: getFallbackClarificationQuestions_def getFallbackPlan_def Let_def)

theorem fallback_bucket_order_witness:
  "str_includes (toLowerCase ''Let the AUTHOR edit the API endpoint of the database'') ''auth'' \<and>
   str_includes (toLowerCase ''Let the AUTHOR edit the API endpoint of the database'') ''api'' \<and>
   str_includes (toLowerCase ''Let the AUTHOR edit the API endpoint of the database'') ''database'' \<and>
   getFallbackClarificationQuestions ''Let the AUTHOR edit the API endpoint of the database''
     = authQuestions \<and>
   getFallbackPlan ''Let the AUTHOR edit the API endpoint of the database'' = authPlan \<and>
   \<not> str_includes (toLowerCase ''Rename the sidebar title'') ''auth'' \<and>
   getFallbackPlan ''Rename the sidebar title'' = genericPlan \<and>
   getFallbackClarificationQuestions ''Rename the sidebar title'' = genericQuestions \<and>
   getFallbackClarificationQuestions ''rename the SIDEBAR title'' = genericQuestions"
proof -
  have a: "str_includes (toLowerCase ''Let the AUTHOR edit the API endpoint of the database'') ''auth''"
    by code_simp
  have b: "str_includes (toLowerCase ''Let the AUTHOR edit the API endpoint of the database'') ''api''"
    by code_simp
  have d: "str_includes (toLowerCase ''Let the AUTHOR edit the API endpoint of the database'') ''database''"
    by code_simp
  have n: "\<not> str_includes (toLowerCase ''Rename the sidebar title'') ''auth'' \<and>
    \<not> str_includes (toLowerCase ''Rename the sidebar title'') ''api'' \<and>
    \<not> str_includes (toLowerCase ''Rename the sidebar title'') ''endpoint'' \<and>
    \<not> str_includes (toLowerCase ''Rename the sidebar title'') ''database'' \<and>
    \<not> str_includes (toLowerCase ''Rename the sidebar title'') ''db''"
    by code_simp
  have same: "toLowerCase ''Rename the sidebar title'' = toLowerCase ''rename the SIDEBAR title''"
    by code_simp
  note first =
    fallback_bucket_order [where r = "''Let the AUTHOR edit the API endpoint of the database''"]
  note second =
    fallback_bucket_order [where r = "''Rename the sidebar title''"
      and r' = "''rename the SIDEBAR title''"]
  have q1: "getFallbackClarificationQuestions ''Let the AUTHOR edit the API endpoint of the database''
     = authQuestions \<and>
     getFallbackPlan ''Let the AUTHOR edit the API endpoint of the database'' = authPlan"
    using first a by blast
  have p2: "getFallbackPlan ''Rename the sidebar title'' = genericPlan"
    using second n by blast
  have q2: "getFallbackClarificationQuestions ''Rename the sidebar title'' = genericQuestions"
    using second n by blast
  have q3: "getFallbackClarificationQuestions ''rename the SIDEBAR title'' = genericQuestions"
    using second same q2 by simp
  show ?thesis using a b d q1 n p2 q2 q3 by blast
qed

text \<open>
  Claim C10 as stated fails for the plan: its buckets are not tested in the order
  authentication, API, database, generic. A request that contains \<open>endpoint\<close> and a request
  that contains \<open>db\<close> are in the API and in the database bucket of the questions, and both
  get the plan of a request without any keyword.
\<close>

theorem fallback_plan_skips_api_and_database:
  "str_includes (toLowerCase ''Expose an ENDPOINT for orders'') ''endpoint'' \<and>
   getFallbackClarificationQuestions ''Expose an ENDPOINT for orders'' = apiQuestions \<and>
   getFallbackPlan ''Expose an ENDPOINT for orders'' = getFallbackPlan ''Rename the sidebar title'' \<and>
   str_includes (toLowerCase ''Index the DB tables'') ''db'' \<and>
   getFallbackClarificationQuestions ''Index the DB tables'' = databaseQuestions \<and>
   getFallbackPlan ''Index the DB tables'' = getFallbackPlan ''Rename the sidebar title'' \<and>
   getFallbackClarificationQuestions ''Rename the sidebar title'' = genericQuestions \<and>
   getFallbackPlan ''Rename the sidebar title'' = genericPlan \<and>
   getFallbackPlan ''Fix the auth flow'' = authPlan \<and>
   authPlan \<noteq> genericPlan"
  by code_simp

section \<open>Properties of the context aggregator\<close>

lemma scanFound_inv:
  "length files \<le> maxTotalFiles \<Longrightarrow> \<forall>f \<in> set files. keptWhole w f \<Longrightarrow>
   length (scanFound w found files) \<le> maxTotalFiles \<and>
   (\<forall>f \<in> set (scanFound w found files). keptWhole w f)"
proof (induction found arbitrary: files)
  case Nil
  then show ?case by simp
next
  case (Cons u found)
  show ?case
  proof (cases "length files \<ge> maxTotalFiles")
    case True
    then show ?thesis using Cons.prems by simp
  next
    case False
    show ?thesis
    proof (cases "stat w u")
      case None
      then show ?thesis using False Cons by simp
    next
      case (Some sz)
      show ?thesis
      proof (cases "sz > maxFileSize")
        case True
        then show ?thesis using False Some Cons by simp
      next
        case small: False
        show ?thesis
        proof (cases "readFile w u")
          case None
          then show ?thesis using False Some small Cons by simp
        next
          case (Some textContent)
          let ?f = "\<lparr>path = asRelativePath w u, content = textContent,
                      language = getLanguageFromPath w u, fileSize = sz\<rparr>"
          have "keptWhole w ?f"
            using \<open>stat w u = Some sz\<close> Some small by (auto simp: keptWhole_def)
          then have "\<forall>f \<in> set (files @ [?f]). keptWhole w f" using Cons.prems(2) by simp
          moreover have "length (files @ [?f]) \<le> maxTotalFiles" using False by simp
          ultimately have "length (scanFound w found (files @ [?f])) \<le> maxTotalFiles \<and>
              (\<forall>f \<in> set (scanFound w found (files @ [?f])). keptWhole w f)"
            using Cons.IH by blast
          then show ?thesis using False \<open>stat w u = Some sz\<close> Some small by simp
        qed
      qed
    qed
  qed
qed

lemma scanPatterns_inv:
  "length files \<le> maxTotalFiles \<Longrightarrow> \<forall>f \<in> set files. keptWhole w f \<Longrightarrow>
   length (scanPatterns w patterns files) \<le> maxTotalFiles \<and>
   (\<forall>f \<in> set (scanPatterns w patterns files). keptWhole w f)"
proof (induction patterns arbitrary: files)
  case Nil
  then show ?case by simp
next
  case (Cons pattern patterns)
  show ?case
  proof (cases "findFiles w pattern maxTotalFiles")
    case None
    then show ?thesis using Cons by simp
  next
    case (Some found)
    have "length (scanFound w found files) \<le> maxTotalFiles \<and>
        (\<forall>f \<in> set (scanFound w found files). keptWhole w f)"
      using scanFound_inv Cons.prems by blast
    then have "length (scanPatterns w patterns (scanFound w found files)) \<le> maxTotalFiles \<and>
        (\<forall>f \<in> set (scanPatterns w patterns (scanFound w found files)). keptWhole w f)"
      using Cons.IH [of "scanFound w found files"] by blast
    then show ?thesis using Some by simp
  qed
qed

lemma scanFound_full: "maxTotalFiles \<le> length files \<Longrightarrow> scanFound w found files = files"
  by (cases found) simp_all

lemma scanFound_skip_large:
  "stat w u = Some sz \<Longrightarrow> maxFileSize < sz \<Longrightarrow>
   scanFound w (u # rest) files = scanFound w rest files"
  by (simp add: scanFound_full)

lemma scanPatterns_full:
  "maxTotalFiles \<le> length files \<Longrightarrow> scanPatterns w patterns files = files"
  by (induction patterns) (auto simp: scanFound_full split: option.splits)

lemma findKeyFiles_inv:
  "length (findKeyFiles w) \<le> maxTotalFiles \<and> (\<forall>f \<in> set (findKeyFiles w). keptWhole w f)"
  using scanPatterns_inv [of "[]" w keyFilePatterns]
  by (auto simp: findKeyFiles_def dest: in_set_takeD)

lemma analyzeWorkspace_keyFiles:
  "analyzeWorkspace w = Inr ctx \<Longrightarrow> keyFiles ctx = findKeyFiles w"
  by (auto simp: analyzeWorkspace_def Let_def split: option.splits list.splits)


text \<open>The sample workspace, field by field, and what the analyzer makes of it.\<close>

lemma demo_fields:
  "workspaceFolders demoWorkspace = Some [''/proj'']"
  "findFiles demoWorkspace pattern n =
     (if pattern = ''**/package.json''
         then Some [''/proj/big/package.json'', ''/proj/package.json'']
         else if pattern = ''**/src/**/*.{ts,tsx,js,jsx}'' then Some sourceFiles
         else if pattern = ''**/lib/**/*.{ts,tsx,js,jsx}''
         then Some [''/proj/lib/y.ts'', ''/proj/lib/z.ts'']
         else if pattern = ''**/*.md'' then None
         else Some [])"
  "stat demoWorkspace f = (if f = ''/proj/big/package.json'' then Some 50001
                   else if f = ''/proj/package.json'' then Some 50000
                   else if f = ''/proj/src/c.ts'' then None
                   else Some 9)"
  "readFile demoWorkspace f = (if f = ''/proj/big/package.json'' then Some bigText
                       else if f = ''/proj/package.json'' then Some manifestText
                       else if f = ''/proj/src/d.ts'' then None
                       else Some ''export {}'')"
  "asRelativePath demoWorkspace f = drop 6 f"
  "extname demoWorkspace f = (if endsWith f ''.json'' then ''.json'' else ''.ts'')"
  "manifestDependencies demoWorkspace t = (if t = manifestText then Some [] else None)"
  "readDirectory demoWorkspace d = Some [FsNode ''.git'' Directory None,
               FsNode ''src'' Directory (Some [FsNode ''a.ts'' RegularFile None]),
               FsNode ''node_modules'' Directory None,
               FsNode ''package.json'' RegularFile None]"
  by (simp_all add: demoWorkspace_def)

lemma demo_language: "getLanguageFromPath demoWorkspace f =
   (if endsWith f ''.json'' then ''JSON'' else ''TypeScript'')"
  by (simp add: getLanguageFromPath_def demo_fields languageMap_def toLowerCase_def toLowerChar_def)

lemma demo_findKeyFiles: "findKeyFiles demoWorkspace = keyFiles demoContext"
  by (simp add: findKeyFiles_def keyFilePatterns_def demo_language endsWith_def demo_fields sourceFiles_def
     demoContext_def demoFile_def maxTotalFiles_def maxFileSize_def)

lemma demo_analyzeWorkspace: "analyzeWorkspace demoWorkspace = Inr demoContext"
  apply (simp add: analyzeWorkspace_def demo_findKeyFiles Let_def demo_fields)
  apply (simp add: demo_fields demoContext_def demoFile_def extractDependencies_def endsWith_def
     detectFrameworks_def detectLanguages_def determineProjectType_def generateStructure_def
     uniq_def pushIf_def skipEntry_def startsWith_def)
  done


text \<open>
  Claim C9. Every context that \<open>analyzeWorkspace\<close> returns has at most \<open>maxTotalFiles\<close> (20)
  key files. Each of them is a file of the workspace whose size, as \<open>stat\<close> gave it, is at
  most \<open>maxFileSize\<close> (50000), stored with all the content that was read: a larger file is
  left out, never cut. Once the array holds 20 files, neither loop adds to it.
\<close>

theorem keyFiles_bounded:
  assumes "analyzeWorkspace w = Inr ctx"
  shows "length (keyFiles ctx) \<le> 20 \<and>
         (\<forall>f \<in> set (keyFiles ctx).
            fileSize f \<le> 50000 \<and>
            (\<exists>u. stat w u = Some (fileSize f) \<and> readFile w u = Some (content f) \<and>
                 path f = asRelativePath w u)) \<and>
         (\<forall>u sz rest files. stat w u = Some sz \<and> 50000 < sz \<longrightarrow>
            scanFound w (u # rest) files = scanFound w rest files) \<and>
         (\<forall>found patterns files. 20 \<le> length files \<longrightarrow>
            scanFound w found files = files \<and> scanPatterns w patterns files = files)"
proof (intro conjI)
  show "length (keyFiles ctx) \<le> 20"
    using assms findKeyFiles_inv [of w] analyzeWorkspace_keyFiles [of w ctx]
    by (simp add: maxTotalFiles_def)
  show "\<forall>f \<in> set (keyFiles ctx).
            fileSize f \<le> 50000 \<and>
            (\<exists>u. stat w u = Some (fileSize f) \<and> readFile w u = Some (content f) \<and>
                 path f = asRelativePath w u)"
    using assms findKeyFiles_inv [of w] analyzeWorkspace_keyFiles [of w ctx]
    by (simp add: keptWhole_def maxFileSize_def)
  show "\<forall>u sz rest files. stat w u = Some sz \<and> 50000 < sz \<longrightarrow>
            scanFound w (u # rest) files = scanFound w rest files"
    using scanFound_skip_large [of w] by (simp add: maxFileSize_def)
  show "\<forall>found patterns files. 20 \<le> length files \<longrightarrow>
            scanFound w found files = files \<and> scanPatterns w patterns files = files"
    using scanFound_full [of _ w] scanPatterns_full [of _ w]
    by (simp add: maxTotalFiles_def)
qed

theorem keyFiles_bounded_witness:
  "analyzeWorkspace demoWorkspace = Inr demoContext \<and>
   length (keyFiles demoContext) = 20 \<and>
   demoFile ''lib/y.ts'' \<in> set (keyFiles demoContext) \<and>
   fileSize (demoFile ''lib/y.ts'') \<le> 50000 \<and>
   stat demoWorkspace ''/proj/big/package.json'' = Some 50001 \<and>
   scanFound demoWorkspace [''/proj/big/package.json'', ''/proj/package.json''] [] =
     scanFound demoWorkspace [''/proj/package.json''] [] \<and>
   scanFound demoWorkspace [''/proj/lib/z.ts''] (keyFiles demoContext) = keyFiles demoContext"
proof -
  have n: "length (keyFiles demoContext) = 20"
    by (simp add: demoContext_def)
  have m: "demoFile ''lib/y.ts'' \<in> set (keyFiles demoContext)"
    by (simp add: demoContext_def)
  have big: "stat demoWorkspace ''/proj/big/package.json'' = Some 50001 \<and> (50000::nat) < 50001"
    by (simp add: demo_fields)
  note inst = keyFiles_bounded [OF demo_analyzeWorkspace]
  have size: "fileSize (demoFile ''lib/y.ts'') \<le> 50000"
    using inst m by blast
  have skip: "scanFound demoWorkspace [''/proj/big/package.json'', ''/proj/package.json''] [] =
     scanFound demoWorkspace [''/proj/package.json''] []"
    using inst big by blast
  have full: "scanFound demoWorkspace [''/proj/lib/z.ts''] (keyFiles demoContext) =
      keyFiles demoContext"
    using inst n by (metis order_refl)
  show ?thesis
    using demo_analyzeWorkspace n m size big skip full by blast
qed

section \<open>Properties of the workflow engine\<close>

subsection \<open>The record of events\<close>

lemma events_emit [simp]: "events (emit e p) = events p @ [e]"
  by (simp add: emit_def)

lemma workflowState_emit [simp]: "workflowState (emit e p) = workflowState p"
  by (simp add: emit_def)

lemma workspaceState_emit [simp]: "workspaceState (emit e p) = workspaceState p"
  by (simp add: emit_def)

lemma events_refresh [simp]: "events (refresh p) = events p @ [Refresh]"
  by (simp add: refresh_def)

lemma workflowState_refresh [simp]: "workflowState (refresh p) = workflowState p"
  by (simp add: refresh_def)

lemma workspaceState_refresh [simp]: "workspaceState (refresh p) = workspaceState p"
  by (simp add: refresh_def)

lemma events_save [simp]:
  "events (saveWorkflowState p) = events p @ [Update WORKFLOW_STATE_KEY (workflowState p)]"
  by (simp add: saveWorkflowState_def)

lemma workflowState_save [simp]: "workflowState (saveWorkflowState p) = workflowState p"
  by (simp add: saveWorkflowState_def)

lemma workspaceState_save [simp]:
  "workspaceState (saveWorkflowState p) = (workspaceState p)(WORKFLOW_STATE_KEY \<mapsto> workflowState p)"
  by (simp add: saveWorkflowState_def)

lemma written_append [simp]: "written (xs @ ys) = written xs @ written ys"
  by (induction xs rule: written.induct) auto

lemma adapterCalls_append [simp]: "adapterCalls (xs @ ys) = adapterCalls xs @ adapterCalls ys"
  by (induction xs rule: adapterCalls.induct) auto

lemma applied_append [simp]: "applied (xs @ ys) = applied xs @ applied ys"
  by (induction xs rule: applied.induct) auto

lemma analyses_append [simp]: "analyses (xs @ ys) = analyses xs + analyses ys"
  by (induction xs rule: analyses.induct) auto

lemma completions_append [simp]: "completions (xs @ ys) = completions xs @ completions ys"
  by (induction xs rule: completions.induct) auto

lemma sidebarEvents_post [simp]: "sidebarEvents (post e s) = sidebarEvents s @ [e]"
  by (simp add: post_def)

lemma codebaseContext_post [simp]: "codebaseContext (post e s) = codebaseContext s"
  by (simp add: post_def)

lemma currentRequest_post [simp]: "currentRequest (post e s) = currentRequest s"
  by (simp add: post_def)

lemma sidebarAnswers_post [simp]: "sidebarAnswers (post e s) = sidebarAnswers s"
  by (simp add: post_def)


lemma requestAccepted_nonempty: "showInputBox requestAccepted typed = Some r \<Longrightarrow> r \<noteq> []"
  by (auto simp: showInputBox_def requestAccepted_def split: option.splits if_splits)

subsection \<open>Persistence\<close>

text \<open>
  Claim C8. Saving the workflow state and then constructing a new provider on the same
  memento gives a provider with the same workflow state: phase, request, questions,
  answers and plan are those that were saved. This holds for every state, reachable or
  not.
\<close>

theorem save_then_load:
  "workflowState (newPlannerProvider (workspaceState (saveWorkflowState p))) = workflowState p"
  by (simp add: newPlannerProvider_def loadWorkflowState_def)


subsection \<open>What is written when generation fails\<close>




subsection \<open>Calls of the generation adapter and of the context aggregator\<close>

lemma start_calls:
  "adapterCalls (events (planner_generatePlan c typed p)) =
     adapterCalls (events p) @
       (if phase (workflowState p) = Idle
        then (case showInputBox requestAccepted typed of
                None \<Rightarrow> []
              | Some r \<Rightarrow> [AskQuestions r None])
        else [])"
  by (auto simp: planner_generatePlan_def startFailed_def Let_def
      dest: requestAccepted_nonempty split: option.splits)

lemma submit_calls:
  "adapterCalls (events (planner_submitClarification c p)) =
     adapterCalls (events p) @
       (if phase (workflowState p) = Clarification \<and>
           length (clarificationAnswers (workflowState p)) =
             length (clarificationQuestions (workflowState p))
        then [AskPlan (userRequest (workflowState p)) (clarificationAnswers (workflowState p)) None]
        else [])"
  by (auto simp: planner_submitClarification_def submitFailed_def Let_def split: option.splits)

lemma start_analyses:
  "analyses (events (planner_generatePlan c typed p)) = analyses (events p)"
  by (auto simp: planner_generatePlan_def startFailed_def Let_def split: option.splits)

lemma submit_analyses:
  "analyses (events (planner_submitClarification c p)) = analyses (events p)"
  by (auto simp: planner_submitClarification_def submitFailed_def Let_def split: option.splits)

lemma sidebar_question_call:
  "adapterCalls (sidebarEvents (handleGeneratePlan c r s)) =
     adapterCalls (sidebarEvents s) @ [AskQuestions r (codebaseContext s)]"
  by (auto simp: handleGeneratePlan_def Let_def split: option.splits)

lemma sidebar_plan_call:
  "adapterCalls (sidebarEvents (handleSubmitAnswer c a s)) =
     adapterCalls (sidebarEvents s) @
       [AskPlan (currentRequest s) (sidebarAnswers s @ [a]) (codebaseContext s)]"
  by (auto simp: handleSubmitAnswer_def Let_def split: option.splits)

lemma pendingAnalyses_post [simp]: "pendingAnalyses (post e s) = pendingAnalyses s"
  by (simp add: post_def)

lemma sidebar_resolve:
  "analyses (sidebarEvents (resolveWebviewView s)) = Suc (analyses (sidebarEvents s)) \<and>
   adapterCalls (sidebarEvents (resolveWebviewView s)) = adapterCalls (sidebarEvents s) \<and>
   codebaseContext (resolveWebviewView s) = codebaseContext s \<and>
   pendingAnalyses (resolveWebviewView s) = Suc (pendingAnalyses s)"
  by (simp add: resolveWebviewView_def initializeCodebaseContext_def Let_def)

lemma sidebar_settled:
  "analyses (sidebarEvents (analysisSettled w s)) = analyses (sidebarEvents s) \<and>
   adapterCalls (sidebarEvents (analysisSettled w s)) = adapterCalls (sidebarEvents s) \<and>
   codebaseContext (analysisSettled w s) =
     (if pendingAnalyses s = 0 then codebaseContext s
      else (case analyzeWorkspace w of Inl err \<Rightarrow> codebaseContext s | Inr ctx \<Rightarrow> Some ctx))"
  by (auto simp: analysisSettled_def Let_def split: sum.splits)

text \<open>
  Claim C3, as amended. The workflow engine (\<open>PlannerProvider\<close>) never runs the context
  aggregator and hands no context to the generation adapter: a start calls the
  clarification operation with the request as it was entered, and a submit calls the
  plan operation with the stored request and the accumulated answers, each time without
  a context. The context is built and passed by the sidebar (\<open>SidebarProvider\<close>) only.
  Each time its view is resolved it starts the aggregator once and does not wait for it:
  the field that holds the context is unchanged when \<open>resolveWebviewView\<close> returns, and it
  is set when a started analysis settles with a result. Both adapter calls of the sidebar
  pass what the field holds at that moment, together with the request and, for the
  plan, the answers given so far; a request handled before the analysis has settled is
  sent without a context.
\<close>

theorem adapter_calls_context:
  "analyses (events (planner_generatePlan c typed p)) = analyses (events p) \<and>
   analyses (events (planner_submitClarification c p)) = analyses (events p) \<and>
   adapterCalls (events (planner_generatePlan c typed p)) =
     adapterCalls (events p) @
       (if phase (workflowState p) = Idle
        then (case showInputBox requestAccepted typed of
                None \<Rightarrow> []
              | Some r \<Rightarrow> [AskQuestions r None])
        else []) \<and>
   adapterCalls (events (planner_submitClarification c p)) =
     adapterCalls (events p) @
       (if phase (workflowState p) = Clarification \<and>
           length (clarificationAnswers (workflowState p)) =
             length (clarificationQuestions (workflowState p))
        then [AskPlan (userRequest (workflowState p)) (clarificationAnswers (workflowState p)) None]
        else []) \<and>
   analyses (sidebarEvents (resolveWebviewView s)) = Suc (analyses (sidebarEvents s)) \<and>
   codebaseContext (resolveWebviewView s) = codebaseContext s \<and>
   pendingAnalyses (resolveWebviewView s) = Suc (pendingAnalyses s) \<and>
   analyses (sidebarEvents (analysisSettled w s)) = analyses (sidebarEvents s) \<and>
   codebaseContext (analysisSettled w s) =
     (if pendingAnalyses s = 0 then codebaseContext s
      else (case analyzeWorkspace w of Inl err \<Rightarrow> codebaseContext s | Inr ctx \<Rightarrow> Some ctx)) \<and>
   adapterCalls (sidebarEvents (handleGeneratePlan c request s)) =
     adapterCalls (sidebarEvents s) @ [AskQuestions request (codebaseContext s)] \<and>
   adapterCalls (sidebarEvents (handleSubmitAnswer c answer s)) =
     adapterCalls (sidebarEvents s) @
       [AskPlan (currentRequest s) (sidebarAnswers s @ [answer]) (codebaseContext s)]"
  using start_analyses [of c typed p] submit_analyses [of c p]
    start_calls [of c typed p] submit_calls [of c p]
    sidebar_resolve [of s] sidebar_settled [of w s] sidebar_question_call [of c request s]
    sidebar_plan_call [of c answer s]
  by blast

theorem adapter_calls_context_witness:
  "codebaseContext resolvedSidebar = None \<and>
   analyses (sidebarEvents resolvedSidebar) = 1 \<and>
   adapterCalls (sidebarEvents
       (handleGeneratePlan offline ''Add user authentication with Auth0'' resolvedSidebar)) =
     [AskQuestions ''Add user authentication with Auth0'' None] \<and>
   codebaseContext analyzedSidebar = Some demoContext \<and>
   analyses (sidebarEvents analyzedSidebar) = 1 \<and>
   adapterCalls (sidebarEvents
       (handleGeneratePlan offline ''Add user authentication with Auth0'' analyzedSidebar)) =
     [AskQuestions ''Add user authentication with Auth0'' (Some demoContext)] \<and>
   adapterCalls (events (planner_generatePlan offline
       (Some ''Add user authentication with Auth0'') fresh)) =
     [AskQuestions ''Add user authentication with Auth0'' None]"
proof -
  have n0: "analyses (sidebarEvents newSidebarProvider) = 0"
    and n1: "codebaseContext newSidebarProvider = None"
    and n2: "pendingAnalyses newSidebarProvider = 0"
    by (simp_all add: newSidebarProvider_def)
  have f1: "phase (workflowState fresh) = Idle"
    by code_simp
  have f2: "adapterCalls (events fresh) = []"
    by code_simp
  have f3: "showInputBox requestAccepted (Some ''Add user authentication with Auth0'') =
      Some ''Add user authentication with Auth0''"
    by code_simp
  note start = adapter_calls_context
    [where c = offline and typed = "Some ''Add user authentication with Auth0''"
       and p = fresh and s = newSidebarProvider]
  have r_ctx: "codebaseContext resolvedSidebar = None"
    using start n1 by (simp add: resolvedSidebar_def)
  have r_cnt: "analyses (sidebarEvents resolvedSidebar) = 1"
    using start n0 by (simp add: resolvedSidebar_def)
  have r_pending: "pendingAnalyses resolvedSidebar = 1"
    using start n2 by (simp add: resolvedSidebar_def)
  have r_calls: "adapterCalls (sidebarEvents resolvedSidebar) = []"
    using sidebar_resolve [of newSidebarProvider]
    by (simp add: resolvedSidebar_def newSidebarProvider_def)
  note settle = adapter_calls_context
    [where c = offline and w = demoWorkspace and s = resolvedSidebar
       and request = "''Add user authentication with Auth0''"]
  have early: "adapterCalls (sidebarEvents
       (handleGeneratePlan offline ''Add user authentication with Auth0'' resolvedSidebar)) =
     [AskQuestions ''Add user authentication with Auth0'' None]"
    using settle r_ctx r_calls by simp
  have a_ctx: "codebaseContext analyzedSidebar = Some demoContext"
    using settle r_pending by (simp add: analyzedSidebar_def demo_analyzeWorkspace)
  have a_cnt: "analyses (sidebarEvents analyzedSidebar) = 1"
    using settle r_cnt by (simp add: analyzedSidebar_def)
  have a_calls: "adapterCalls (sidebarEvents analyzedSidebar) = []"
    using sidebar_settled [of demoWorkspace resolvedSidebar] r_calls
    by (simp add: analyzedSidebar_def)
  have late: "adapterCalls (sidebarEvents
       (handleGeneratePlan offline ''Add user authentication with Auth0'' analyzedSidebar)) =
     [AskQuestions ''Add user authentication with Auth0'' (Some demoContext)]"
    using adapter_calls_context
      [where c = offline and s = analyzedSidebar
         and request = "''Add user authentication with Auth0''"] a_ctx a_calls
    by simp
  have planner: "adapterCalls (events (planner_generatePlan offline
       (Some ''Add user authentication with Auth0'') fresh)) =
     [AskQuestions ''Add user authentication with Auth0'' None]"
    using start f1 f2 f3 by simp
  show ?thesis using r_ctx r_cnt early a_ctx a_cnt late planner by blast
qed

text \<open>
  Claim C3 as stated fails: through a whole session of the engine, from the request to
  the plan, the context aggregator is never run, and both calls of the adapter are made
  without a context.
\<close>

theorem planner_calls_without_context:
  "phase (workflowState submitted) = Ready \<and>
   analyses (events submitted) = 0 \<and>
   adapterCalls (events submitted) =
     [AskQuestions ''Add user authentication with Auth0'' None,
      AskPlan ''Add user authentication with Auth0'' [''Auth0'', ''Yes, Google'', ''No''] None]"
  by code_simp

subsection \<open>Execution of a plan\<close>

lemma applyItems_state:
  "workflowState (snd (applyItems c items i n p)) = workflowState p \<and>
   workspaceState (snd (applyItems c items i n p)) = workspaceState p"
  by (induction items arbitrary: i n p) (auto simp: Let_def)

lemma applyItems_applied:
  "applied (events (snd (applyItems c items i n p))) = applied (events p) @ items"
  by (induction items arbitrary: i n p) (auto simp: Let_def)

lemma applyItems_completions:
  "completions (events (snd (applyItems c items i n p))) = completions (events p)"
  by (induction items arbitrary: i n p) (auto simp: Let_def)

lemma upt_0_Suc_map: "[0..<Suc m] = 0 # map Suc [0..<m]"
  by (simp only: upt_conv_Cons [of 0 "Suc m"] map_Suc_upt zero_less_Suc)

lemma applyItems_count:
  "fst (applyItems c items i n p) +
     length (filter (\<lambda>k. \<not> applyPlanItem c (i + k) (items ! k)) [0..<length items])
   = n + length items"
proof (induction items arbitrary: i n p)
  case Nil
  then show ?case by simp
next
  case (Cons x rest)
  have shift: "length (filter (\<lambda>k. \<not> applyPlanItem c (i + k) ((x # rest) ! k)) (map Suc [0..<length rest]))
      = length (filter (\<lambda>k. \<not> applyPlanItem c (Suc i + k) (rest ! k)) [0..<length rest])"
    by (simp add: filter_map comp_def)
  have split: "[0..<length (x # rest)] = 0 # map Suc [0..<length rest]"
    using upt_0_Suc_map [of "length rest"] by simp
  show ?case
  proof (cases "applyPlanItem c i x")
    case True
    then show ?thesis
      using Cons.IH [of "Suc i" "Suc n"] shift
      by (simp only: split) (simp add: Let_def)
  next
    case False
    then show ?thesis
      using Cons.IH [of "Suc i" n] shift
      by (simp only: split) (simp add: Let_def)
  qed
qed

lemma applyItems_successes:
  "fst (applyItems c items 0 0 p) + length (failingPositions c items) = length items"
  using applyItems_count [of c items 0 0 p] by (simp add: failingPositions_def)

text \<open>
  Claim C4. When a plan of \<open>N\<close> items (\<open>N > 0\<close>) is executed after the user confirms, and
  applying fails at exactly one position, then \<open>applyPlanItem\<close> is still called for every
  item of the plan, in plan order, the report says \<open>N - 1\<close> of \<open>N\<close> applied, and afterwards
  the workflow state, in memory and in storage, is the initial idle state.
\<close>

theorem execute_one_failure:
  assumes "phase (workflowState p) = Ready"
    and "plan (workflowState p) \<noteq> []"
    and "length (failingPositions c (plan (workflowState p))) = 1"
  shows "applied (events (planner_executeToIDE c (Some ''Yes, Execute Plan'') p)) =
           applied (events p) @ plan (workflowState p) \<and>
         completions (events (planner_executeToIDE c (Some ''Yes, Execute Plan'') p)) =
           completions (events p) @
             [(length (plan (workflowState p)) - 1, length (plan (workflowState p)))] \<and>
         workflowState (planner_executeToIDE c (Some ''Yes, Execute Plan'') p) =
           initialWorkflowState \<and>
         workspaceState (planner_executeToIDE c (Some ''Yes, Execute Plan'') p) WORKFLOW_STATE_KEY =
           Some initialWorkflowState"
proof -
  let ?items = "plan (workflowState p)"
  let ?p1 = "emit (Notify ExecutingPlan) p"
  let ?r = "applyItems c ?items 0 0 ?p1"
  have run: "planner_executeToIDE c (Some ''Yes, Execute Plan'') p =
      resetWorkflowState
        (emit (Notify (ExecutionCompleted (fst ?r) (length (plan (workflowState (snd ?r)))))) (snd ?r))"
    using assms(1,2) by (simp add: planner_executeToIDE_def Let_def split_beta)
  have st: "workflowState (snd ?r) = workflowState p"
    using applyItems_state [of c ?items 0 0 ?p1] by simp
  have cnt: "fst ?r = length ?items - 1"
    using applyItems_successes [of c ?items ?p1] assms(3) by simp
  have ap: "applied (events (snd ?r)) = applied (events p) @ ?items"
    using applyItems_applied [of c ?items 0 0 ?p1] by simp
  have co: "completions (events (snd ?r)) = completions (events p)"
    using applyItems_completions [of c ?items 0 0 ?p1] by simp
  show ?thesis
    unfolding run using st cnt ap co by (simp add: resetWorkflowState_def)
qed

theorem execute_one_failure_witness:
  "plan (workflowState submitted) = authPlan \<and>
   failingPositions offline (plan (workflowState submitted)) = [1] \<and>
   applied (events (planner_executeToIDE offline (Some ''Yes, Execute Plan'') submitted)) =
     authPlan \<and>
   completions (events (planner_executeToIDE offline (Some ''Yes, Execute Plan'') submitted)) =
     [(5, 6)] \<and>
   workflowState (planner_executeToIDE offline (Some ''Yes, Execute Plan'') submitted) =
     initialWorkflowState"
proof -
  have h1: "phase (workflowState submitted) = Ready"
    by code_simp
  have pl: "plan (workflowState submitted) = authPlan"
    by code_simp
  have h2: "plan (workflowState submitted) \<noteq> []"
    unfolding pl by (simp add: authPlan_def)
  have fp: "failingPositions offline (plan (workflowState submitted)) = [1]"
    by code_simp
  have h3: "length (failingPositions offline (plan (workflowState submitted))) = 1"
    unfolding fp by simp
  have e1: "applied (events submitted) = []"
    by code_simp
  have e2: "completions (events submitted) = []"
    by code_simp
  have n: "length authPlan = 6"
    by (simp add: authPlan_def)
  show ?thesis
    using execute_one_failure [OF h1 h2 h3] pl fp e1 e2 n by simp
qed

subsection \<open>Answering the questions\<close>

lemma answer_step:
  "phase (workflowState (planner_answerNextQuestion t p)) = phase (workflowState p) \<and>
   clarificationQuestions (workflowState (planner_answerNextQuestion t p)) =
     clarificationQuestions (workflowState p) \<and>
   clarificationAnswers (workflowState (planner_answerNextQuestion t p)) =
     clarificationAnswers (workflowState p) @
       (if phase (workflowState p) = Clarification \<and>
           length (clarificationAnswers (workflowState p)) <
             length (clarificationQuestions (workflowState p))
        then (case recordedAnswer t of None \<Rightarrow> [] | Some a \<Rightarrow> [a])
        else [])"
  by (auto simp: planner_answerNextQuestion_def recordedAnswer_def Let_def split: option.splits)

lemma answer_noop:
  "length (clarificationQuestions (workflowState p)) \<le>
     length (clarificationAnswers (workflowState p)) \<Longrightarrow>
   planner_answerNextQuestion t p = p"
  by (simp add: planner_answerNextQuestion_def Let_def)

lemma answers_fold:
  "phase (workflowState (fold planner_answerNextQuestion ts p)) = phase (workflowState p) \<and>
   clarificationQuestions (workflowState (fold planner_answerNextQuestion ts p)) =
     clarificationQuestions (workflowState p) \<and>
   clarificationAnswers (workflowState (fold planner_answerNextQuestion ts p)) =
     clarificationAnswers (workflowState p) @
       (if phase (workflowState p) = Clarification
        then take (length (clarificationQuestions (workflowState p))
                    - length (clarificationAnswers (workflowState p)))
               (recordedAnswers ts)
        else [])"
proof (induction ts arbitrary: p)
  case Nil
  then show ?case by (simp add: recordedAnswers_def List.map_filter_simps)
next
  case (Cons t ts)
  let ?q = "planner_answerNextQuestion t p"
  note step = answer_step [of t p]
  note ih = Cons.IH [of ?q]
  show ?case
  proof (cases "phase (workflowState p) = Clarification \<and>
           length (clarificationAnswers (workflowState p)) <
             length (clarificationQuestions (workflowState p))")
    case False
    then show ?thesis using step ih by (auto simp: recordedAnswers_def)
  next
    case True
    show ?thesis
    proof (cases "recordedAnswer t")
      case None
      then show ?thesis using step ih True
        by (simp add: recordedAnswers_def List.map_filter_simps)
    next
      case (Some a)
      have "length (clarificationQuestions (workflowState p))
            - length (clarificationAnswers (workflowState p))
          = Suc (length (clarificationQuestions (workflowState p))
            - Suc (length (clarificationAnswers (workflowState p))))"
        using True by arith
      then show ?thesis using step ih True Some
        by (simp add: recordedAnswers_def List.map_filter_simps)
    qed
  qed
qed

lemma consistent_new: "consistent (newPlannerProvider Map.empty)"
  by (simp add: consistent_def newPlannerProvider_def loadWorkflowState_def
      answersWithinQuestions_def initialWorkflowState_def)

lemma consistent_reload: "consistent p \<Longrightarrow> consistent (newPlannerProvider (workspaceState p))"
  by (auto simp: consistent_def newPlannerProvider_def loadWorkflowState_def
      answersWithinQuestions_def initialWorkflowState_def split: option.splits)

lemma consistent_start: "consistent p \<Longrightarrow> consistent (planner_generatePlan c typed p)"
  by (auto simp: consistent_def planner_generatePlan_def startFailed_def Let_def
      answersWithinQuestions_def split: option.splits)

lemma consistent_answer: "consistent p \<Longrightarrow> consistent (planner_answerNextQuestion typed p)"
  by (auto simp: consistent_def planner_answerNextQuestion_def Let_def
      answersWithinQuestions_def split: option.splits)

lemma consistent_submit: "consistent p \<Longrightarrow> consistent (planner_submitClarification c p)"
  by (auto simp: consistent_def planner_submitClarification_def submitFailed_def Let_def
      answersWithinQuestions_def split: option.splits)

lemma consistent_reset: "consistent (resetWorkflowState p)"
  by (simp add: consistent_def resetWorkflowState_def
      answersWithinQuestions_def initialWorkflowState_def)

lemma consistent_emit: "consistent (emit e p) = consistent p"
  by (simp add: consistent_def)

lemma consistent_execute: "consistent p \<Longrightarrow> consistent (planner_executeToIDE c confirmation p)"
  by (simp add: planner_executeToIDE_def Let_def split_beta consistent_reset consistent_emit)

lemma consistent_restart: "consistent p \<Longrightarrow> consistent (planner_restartWorkflow confirmation p)"
  using consistent_reset [of p]
  by (auto simp: planner_restartWorkflow_def consistent_def)

lemma reachable_consistent: "reachable p \<Longrightarrow> consistent p"
  by (induction rule: reachable.induct)
    (simp_all add: consistent_new consistent_reload consistent_start consistent_answer
      consistent_submit consistent_execute consistent_restart)

text \<open>
  Claim C7. For every sequence of invocations of \<open>answerNextQuestion\<close>: the answers after
  the sequence are the answers before it followed by the texts the invocations
  recorded, in call order, as far as there are questions left; if there were no more
  answers than questions before, as is the case in every reachable state, there are no
  more answers than questions after; and once every question has an answer, an
  invocation changes nothing, neither the workflow state nor the storage nor the record
  of events.
\<close>

theorem answers_in_order_and_bounded:
  "clarificationAnswers (workflowState (fold planner_answerNextQuestion ts p)) =
     clarificationAnswers (workflowState p) @
       (if phase (workflowState p) = Clarification
        then take (length (clarificationQuestions (workflowState p))
                    - length (clarificationAnswers (workflowState p)))
               (recordedAnswers ts)
        else []) \<and>
   (length (clarificationAnswers (workflowState p)) \<le>
      length (clarificationQuestions (workflowState p)) \<or> reachable p \<longrightarrow>
    length (clarificationAnswers (workflowState (fold planner_answerNextQuestion ts p))) \<le>
      length (clarificationQuestions (workflowState (fold planner_answerNextQuestion ts p)))) \<and>
   (length (clarificationQuestions (workflowState p)) \<le>
      length (clarificationAnswers (workflowState p)) \<longrightarrow>
    fold planner_answerNextQuestion ts p = p)"
proof (intro conjI impI)
  show "clarificationAnswers (workflowState (fold planner_answerNextQuestion ts p)) =
     clarificationAnswers (workflowState p) @
       (if phase (workflowState p) = Clarification
        then take (length (clarificationQuestions (workflowState p))
                    - length (clarificationAnswers (workflowState p)))
               (recordedAnswers ts)
        else [])"
    using answers_fold [of ts p] by blast
next
  assume "length (clarificationAnswers (workflowState p)) \<le>
      length (clarificationQuestions (workflowState p)) \<or> reachable p"
  then have "length (clarificationAnswers (workflowState p)) \<le>
      length (clarificationQuestions (workflowState p))"
    using reachable_consistent [of p]
    by (auto simp: consistent_def answersWithinQuestions_def)
  then show "length (clarificationAnswers (workflowState (fold planner_answerNextQuestion ts p))) \<le>
      length (clarificationQuestions (workflowState (fold planner_answerNextQuestion ts p)))"
    using answers_fold [of ts p] by auto
next
  assume "length (clarificationQuestions (workflowState p)) \<le>
      length (clarificationAnswers (workflowState p))"
  then show "fold planner_answerNextQuestion ts p = p"
    by (induction ts) (simp_all add: answer_noop)
qed

theorem answers_in_order_and_bounded_witness:
  "reachable started \<and>
   clarificationAnswers (workflowState
     (fold planner_answerNextQuestion
        [Some ''Auth0'', None, Some '' '', Some '' Yes, Google '', Some ''No'', Some ''One more'']
        started)) = [''Auth0'', ''Yes, Google'', ''No''] \<and>
   length (clarificationQuestions (workflowState
     (fold planner_answerNextQuestion
        [Some ''Auth0'', None, Some '' '', Some '' Yes, Google '', Some ''No'', Some ''One more'']
        started))) = 3 \<and>
   fold planner_answerNextQuestion [Some ''One more'', Some ''And another''] answered = answered"
proof -
  let ?ts = "[Some ''Auth0'', None, Some '' '', Some '' Yes, Google '', Some ''No'',
              Some ''One more'']"
  have r: "reachable started"
    unfolding started_def fresh_def by (intro reachable_start reachable_new)
  have s1: "phase (workflowState started) = Clarification"
    by code_simp
  have s2: "clarificationAnswers (workflowState started) = []"
    by code_simp
  have s3: "length (clarificationQuestions (workflowState started)) = 3"
    by code_simp
  have s4: "recordedAnswers ?ts = [''Auth0'', ''Yes, Google'', ''No'', ''One more'']"
    by code_simp
  have a1: "length (clarificationQuestions (workflowState answered)) \<le>
      length (clarificationAnswers (workflowState answered))"
    by code_simp
  note run = answers_in_order_and_bounded [of ?ts started]
  have first: "clarificationAnswers (workflowState (fold planner_answerNextQuestion ?ts started))
      = [''Auth0'', ''Yes, Google'', ''No'']"
    using run by (simp add: s1 s2 s3 s4)
  have "length (clarificationAnswers (workflowState (fold planner_answerNextQuestion ?ts started)))
      \<le> length (clarificationQuestions (workflowState (fold planner_answerNextQuestion ?ts started)))"
    using run r by blast
  moreover have "length (clarificationQuestions
      (workflowState (fold planner_answerNextQuestion ?ts started))) \<le> 3"
    using answers_fold [of ?ts started] s3 by simp
  ultimately have full: "length (clarificationQuestions
      (workflowState (fold planner_answerNextQuestion ?ts started))) = 3"
    using first by simp
  have last: "fold planner_answerNextQuestion [Some ''One more'', Some ''And another''] answered
      = answered"
    using a1 answers_in_order_and_bounded
      [of "[Some ''One more'', Some ''And another'']" answered]
    by blast
  show ?thesis using r first full last by blast
qed

end
